theory Spec2Isabelle
  imports Main "HOL-Library.Word" "HOL-Library.Sublist"
begin

unbundle bit_operations_syntax

section \<open>Lowering of global constructors and destructors for NVPTX\<close>

text \<open>
  A model of \<^verbatim>\<open>llvm/lib/Target/NVPTX/NVPTXCtorDtorLowering.cpp\<close>. The pass rewrites a
  module: every function of the file becomes a function from the module to the new
  module. The IR library (modules, global values, constants, the instruction builder),
  the MD5 hasher and the string helpers are not part of that file; the small part of
  them the pass uses is written out in the first sections.
\<close>

subsection \<open>Decimal and hexadecimal rendering\<close>

text \<open>
  \<^verbatim>\<open>std::to_string(unsigned long)\<close>: the decimal digits of the value, most
  significant first, \<^verbatim>\<open>"0"\<close> for zero.
\<close>

fun dec :: "nat \<Rightarrow> string" where
  "dec n = (if n < 10 then [char_of (48 + n)] else dec (n div 10) @ [char_of (48 + n mod 10)])"

declare dec.simps [simp del]

definition to_string :: "64 word \<Rightarrow> string" where
  "to_string Priority = dec (unat Priority)"

text \<open>
  Modelled from the spec: \<^verbatim>\<open>llvm::hexdigit\<close> and \<^verbatim>\<open>llvm::utohexstr\<close>
  (\<^verbatim>\<open>llvm/ADT/StringExtras.h\<close>) are not among the source files. The spec has the digest
  "rendered as hex", lowercase. \<^verbatim>\<open>getHash\<close> calls \<^verbatim>\<open>utohexstr(Hash.low(), true)\<close>
  and passes no width, and the library's digit loop for the default width 0 is
  \<^verbatim>\<open>if (X == 0) *--BufPtr = '0'; for (; X; X >>= 4) *--BufPtr = hexdigit(X & 15, LowerCase);\<close>
  which is what follows.
\<close>

definition hexdigit :: "nat \<Rightarrow> bool \<Rightarrow> char" where
  "hexdigit X LowerCase =
     (if X < 10 then char_of (48 + X)
      else char_of ((if LowerCase then 97 else 65) + (X - 10)))"

function utohexstr_loop :: "64 word \<Rightarrow> bool \<Rightarrow> string \<Rightarrow> string" where
  "utohexstr_loop X LowerCase Buffer =
     (if X = 0 then Buffer
      else utohexstr_loop (drop_bit 4 X) LowerCase (hexdigit (unat (X AND 15)) LowerCase # Buffer))"
  by pat_completeness auto
termination
proof (relation "measure (\<lambda>(X, _, _). unat X)")
  show "wf (measure (\<lambda>(X :: 64 word, _ :: bool, _ :: string). unat X))"
    by simp
next
  fix X :: "64 word" and LowerCase :: bool and Buffer :: string
  assume nz: "X \<noteq> 0"
  have "unat X \<noteq> 0"
    using nz by (simp add: unat_eq_0)
  then have "unat X div 16 < unat X"
    by simp
  then have "unat (drop_bit 4 X) < unat X"
    by (simp add: unat_drop_bit_eq drop_bit_eq_div unat_div)
  then show "((drop_bit 4 X, LowerCase, hexdigit (unat (X AND 15)) LowerCase # Buffer),
              (X, LowerCase, Buffer)) \<in> measure (\<lambda>(X, _, _). unat X)"
    by simp
qed

declare utohexstr_loop.simps [simp del]

definition utohexstr :: "64 word \<Rightarrow> bool \<Rightarrow> string" where
  "utohexstr X LowerCase = utohexstr_loop X LowerCase (if X = 0 then ''0'' else [])"

subsection \<open>The MD5 hasher\<close>

text \<open>
  Modelled from the spec: \<^verbatim>\<open>llvm::MD5\<close> (\<^verbatim>\<open>llvm/Support/MD5.h\<close>) is not among the
  source files; the spec has it as a 128-bit hash of which the low 64 bits are used.
  The digest is computed as RFC 1321 defines it: the message is padded with the byte
  0x80, zero bytes up to 56 modulo 64 and the bit length as 8 little-endian bytes; each
  block of 16 little-endian words goes through 64 steps on the state (a, b, c, d).
  \<^verbatim>\<open>MD5Result::low()\<close> reads the first 8 bytes of the digest as a little-endian
  integer, that is the state words a (low half) and b (high half).
\<close>

definition md5_K :: "32 word list" where
  "md5_K = [
    0xd76aa478, 0xe8c7b756, 0x242070db, 0xc1bdceee, 0xf57c0faf, 0x4787c62a, 0xa8304613, 0xfd469501,
    0x698098d8, 0x8b44f7af, 0xffff5bb1, 0x895cd7be, 0x6b901122, 0xfd987193, 0xa679438e, 0x49b40821,
    0xf61e2562, 0xc040b340, 0x265e5a51, 0xe9b6c7aa, 0xd62f105d, 0x02441453, 0xd8a1e681, 0xe7d3fbc8,
    0x21e1cde6, 0xc33707d6, 0xf4d50d87, 0x455a14ed, 0xa9e3e905, 0xfcefa3f8, 0x676f02d9, 0x8d2a4c8a,
    0xfffa3942, 0x8771f681, 0x6d9d6122, 0xfde5380c, 0xa4beea44, 0x4bdecfa9, 0xf6bb4b60, 0xbebfbc70,
    0x289b7ec6, 0xeaa127fa, 0xd4ef3085, 0x04881d05, 0xd9d4d039, 0xe6db99e5, 0x1fa27cf8, 0xc4ac5665,
    0xf4292244, 0x432aff97, 0xab9423a7, 0xfc93a039, 0x655b59c3, 0x8f0ccc92, 0xffeff47d, 0x85845dd1,
    0x6fa87e4f, 0xfe2ce6e0, 0xa3014314, 0x4e0811a1, 0xf7537e82, 0xbd3af235, 0x2ad7d2bb, 0xeb86d391]"

definition md5_S :: "nat list" where
  "md5_S = [7, 12, 17, 22, 7, 12, 17, 22, 7, 12, 17, 22, 7, 12, 17, 22,
            5, 9, 14, 20, 5, 9, 14, 20, 5, 9, 14, 20, 5, 9, 14, 20,
            4, 11, 16, 23, 4, 11, 16, 23, 4, 11, 16, 23, 4, 11, 16, 23,
            6, 10, 15, 21, 6, 10, 15, 21, 6, 10, 15, 21, 6, 10, 15, 21]"

type_synonym md5_state = "32 word \<times> 32 word \<times> 32 word \<times> 32 word"

definition rotl32 :: "32 word \<Rightarrow> nat \<Rightarrow> 32 word" where
  "rotl32 x n = push_bit n x OR drop_bit (32 - n) x"

definition md5_step :: "32 word list \<Rightarrow> nat \<Rightarrow> md5_state \<Rightarrow> md5_state" where
  "md5_step m i s = (case s of (a, b, c, d) \<Rightarrow>
     let f = (if i < 16 then (b AND c) OR (NOT b AND d)
              else if i < 32 then (d AND b) OR (NOT d AND c)
              else if i < 48 then b XOR c XOR d
              else c XOR (b OR NOT d));
         g = (if i < 16 then i
              else if i < 32 then (5 * i + 1) mod 16
              else if i < 48 then (3 * i + 5) mod 16
              else (7 * i) mod 16)
     in (d, b + rotl32 (a + f + md5_K ! i + m ! g) (md5_S ! i), b, c))"

definition md5_body :: "md5_state \<Rightarrow> 32 word list \<Rightarrow> md5_state" where
  "md5_body s m = (case s of (a0, b0, c0, d0) \<Rightarrow>
     case fold (md5_step m) [0..<64] s of (a, b, c, d) \<Rightarrow> (a0 + a, b0 + b, c0 + c, d0 + d))"

fun md5_words :: "8 word list \<Rightarrow> 32 word list" where
  "md5_words (b0 # b1 # b2 # b3 # bs) =
     (ucast b0 OR push_bit 8 (ucast b1) OR push_bit 16 (ucast b2) OR push_bit 24 (ucast b3))
       # md5_words bs"
| "md5_words _ = []"

fun md5_blocks :: "32 word list \<Rightarrow> 32 word list list" where
  "md5_blocks [] = []"
| "md5_blocks (w # ws) = take 16 (w # ws) # md5_blocks (drop 16 (w # ws))"

definition md5_pad :: "8 word list \<Rightarrow> 8 word list" where
  "md5_pad bs =
     (let n = length bs; k = (119 - n mod 64) mod 64; bits = (word_of_nat (8 * n) :: 64 word)
      in bs @ [0x80] @ replicate k 0 @ map (\<lambda>i. ucast (drop_bit (8 * i) bits)) [0..<8])"

definition md5_final :: "string \<Rightarrow> md5_state" where
  "md5_final Str = fold (\<lambda>m s. md5_body s m) (md5_blocks (md5_words (md5_pad (map of_char Str))))
     (0x67452301, 0xefcdab89, 0x98badcfe, 0x10325476)"

definition md5_low :: "md5_state \<Rightarrow> 64 word" where
  "md5_low Hash = (case Hash of (a, b, c, d) \<Rightarrow> ucast a OR push_bit 32 (ucast b))"

subsection \<open>The digest function\<close>

definition getHash :: "string \<Rightarrow> string" where
  "getHash Str = utohexstr (md5_low (md5_final Str)) True"


subsection \<open>IR values: types, constants, instructions\<close>

text \<open>
  Only what the pass reads or builds. A constant is an integer (bit width and signed
  value), a null pointer, the address of a named global value (with its address
  space), a struct, an array, or the all-zero aggregate; a zero-element array
  initializer is the all-zero aggregate in LLVM, never a \<^verbatim>\<open>ConstantArray\<close>.
\<close>

datatype Type =
    VoidTy
  | IntegerTy nat
  | PointerTy nat
  | FunctionTy Type "Type list"
  | AggregateTy

datatype Constant =
    ConstantInt nat int
  | ConstantPointerNull nat
  | GlobalRef string nat
  | ConstantStruct "Constant list"
  | ConstantArray "Constant list"
  | ConstantAggregateZero

fun getType :: "Constant \<Rightarrow> Type" where
  "getType (ConstantInt w v) = IntegerTy w"
| "getType (ConstantPointerNull as) = PointerTy as"
| "getType (GlobalRef n as) = PointerTy as"
| "getType (ConstantStruct ops) = AggregateTy"
| "getType (ConstantArray ops) = AggregateTy"
| "getType ConstantAggregateZero = AggregateTy"

text \<open>\<^verbatim>\<open>Value::getName\<close>: only global values carry a name here.\<close>

fun getName :: "Constant \<Rightarrow> string" where
  "getName (GlobalRef n as) = n"
| "getName _ = []"

datatype Error = CastFailed | TooManyBitsForInt64

text \<open>
  \<^verbatim>\<open>ConstantInt::getSExtValue\<close> returns the sign-extended value as \<^verbatim>\<open>int64_t\<close> and
  asserts that it fits; the pass stores it in a \<^verbatim>\<open>uint64_t\<close>.
\<close>

definition getSExtValue :: "int \<Rightarrow> Error + 64 word" where
  "getSExtValue v =
     (if - (2 ^ 63) \<le> v \<and> v < 2 ^ 63 then Inr (word_of_int v) else Inl TooManyBitsForInt64)"

datatype Predicate = ICMP_EQ | ICMP_NE | ICMP_UGT | ICMP_ULT

datatype Operand =
    GlobalAddr string
  | Reg string
  | ConstInt64 "64 word"

text \<open>
  Instructions, each with the name of its result. The builder leaves some results
  unnamed; they carry the numbers the IR printer gives them (\<^verbatim>\<open>%0\<close>, \<^verbatim>\<open>%1\<close>, ...).
\<close>

datatype Instruction =
    Load string Type Operand
  | PtrToInt string Operand Type
  | Sub string Operand Operand
  | AShr string Operand Operand bool
  | GEP string Type Operand Operand bool
  | ICmp string Predicate Operand Operand
  | PHI string Type "(Operand \<times> string) list"
  | Call Type Operand
  | CondBr Operand string string
  | RetVoid

record BasicBlock =
  bbName :: string
  bbInstructions :: "Instruction list"

subsection \<open>Global values and the module\<close>

datatype Linkage =
    ExternalLinkage | WeakAnyLinkage | WeakODRLinkage | AppendingLinkage
  | InternalLinkage | PrivateLinkage

datatype Visibility = DefaultVisibility | HiddenVisibility | ProtectedVisibility

datatype CallingConv = CallingConv_C | PTX_Kernel

record GlobalVariable =
  gvName :: string
  gvType :: Type
  gvIsConstant :: bool
  gvLinkage :: Linkage
  gvInitializer :: "Constant option"
  gvThreadLocal :: bool
  gvAddressSpace :: nat
  gvSection :: string
  gvVisibility :: Visibility

record Function =
  fnName :: string
  fnType :: Type
  fnLinkage :: Linkage
  fnAddressSpace :: nat
  fnAttrs :: "(string \<times> string) list"
  fnCallingConv :: CallingConv
  fnBlocks :: "BasicBlock list"

text \<open>
  The module: its global variables and its functions, each in insertion order, the
  list behind \<^verbatim>\<open>llvm.used\<close>, the source file name, and the counter
  \<^verbatim>\<open>LastUnique\<close> of the symbol table. Global variables and functions share one symbol
  table, in which every name occurs once.
\<close>

record Module =
  globalList :: "GlobalVariable list"
  functionList :: "Function list"
  usedList :: "string list"
  sourceFileName :: string
  lastUnique :: nat

definition valueNames :: "Module \<Rightarrow> string list" where
  "valueNames M = map gvName (globalList M) @ map fnName (functionList M)"

definition hasLocalLinkage :: "GlobalVariable \<Rightarrow> bool" where
  "hasLocalLinkage GV = (gvLinkage GV = InternalLinkage \<or> gvLinkage GV = PrivateLinkage)"

definition hasInitializer :: "GlobalVariable \<Rightarrow> bool" where
  "hasInitializer GV = (gvInitializer GV \<noteq> None)"

text \<open>
  Modelled from the spec: \<^verbatim>\<open>Module::getFunction\<close>, \<^verbatim>\<open>Module::getGlobalVariable\<close>,
  \<^verbatim>\<open>Module::getOrInsertGlobal\<close>, \<^verbatim>\<open>GlobalVariable::eraseFromParent\<close>, the constructors of
  global values and \<^verbatim>\<open>appendToUsed\<close> belong to the IR library, which is not among the
  source files ("a given library with documented operations"). A lookup finds the
  value of that name and kind; \<^verbatim>\<open>getGlobalVariable(Name)\<close> does not return a variable
  of local linkage (its \<^verbatim>\<open>AllowInternal\<close> defaults to false).
\<close>

definition getFunction :: "Module \<Rightarrow> string \<Rightarrow> Function option" where
  "getFunction M Name = find (\<lambda>F. fnName F = Name) (functionList M)"

definition getNamedGlobal :: "Module \<Rightarrow> string \<Rightarrow> GlobalVariable option" where
  "getNamedGlobal M Name = find (\<lambda>GV. gvName GV = Name) (globalList M)"

definition getGlobalVariable :: "Module \<Rightarrow> string \<Rightarrow> GlobalVariable option" where
  "getGlobalVariable M Name =
     (case getNamedGlobal M Name of
        None \<Rightarrow> None
      | Some GV \<Rightarrow> if hasLocalLinkage GV then None else Some GV)"

text \<open>
  A new global value whose name is taken gets the name followed by the next number of
  the counter for which the result is free (on NVPTX without a separating dot).
\<close>

function nextUnique :: "string list \<Rightarrow> string \<Rightarrow> nat \<Rightarrow> nat" where
  "nextUnique names base c =
     (if base @ dec (Suc c) \<in> set names then nextUnique names base (Suc c) else Suc c)"
  by pat_completeness auto
termination
proof (relation "measure (\<lambda>(names, base, c). card {k. c < k \<and> base @ dec k \<in> set names})")
  show "wf (measure (\<lambda>(names, base :: string, c).
              card {k. c < k \<and> base @ dec k \<in> set names}))"
    by simp
next
  fix names :: "string list" and base :: string and c :: nat
  assume taken: "base @ dec (Suc c) \<in> set names"
  have nonempty: "dec n \<noteq> []" for n
    by (subst dec.simps) simp
  have digit: "a = b" if "char_of (48 + a) = (char_of (48 + b) :: char)" "a < 10" "b < 10"
    for a b :: nat
  proof -
    have "(of_char (char_of (48 + a) :: char) :: nat) = of_char (char_of (48 + b) :: char)"
      using that(1) by simp
    then show ?thesis
      using that(2,3) by simp
  qed
  have inj: "dec n = dec m \<Longrightarrow> n = m" for n m
  proof (induction n arbitrary: m rule: dec.induct)
    case (1 n)
    show ?case
    proof (cases "n < 10")
      case True
      have "m < 10"
      proof (rule ccontr)
        assume "\<not> m < 10"
        then have "dec m = dec (m div 10) @ [char_of (48 + m mod 10)]"
          by (subst dec.simps) simp
        moreover have "dec n = [char_of (48 + n)]"
          using True by (subst dec.simps) simp
        ultimately show False
          using "1.prems" nonempty [of "m div 10"] by (cases "dec (m div 10)") auto
      qed
      then show ?thesis
        using True "1.prems" digit [of n m] by (simp add: dec.simps [of n] dec.simps [of m])
    next
      case False
      have m: "\<not> m < 10"
      proof
        assume "m < 10"
        then have "dec m = [char_of (48 + m)]"
          by (subst dec.simps) simp
        moreover have "dec n = dec (n div 10) @ [char_of (48 + n mod 10)]"
          using False by (subst dec.simps) simp
        ultimately show False
          using "1.prems" nonempty [of "n div 10"] by (cases "dec (n div 10)") auto
      qed
      have "dec (n div 10) @ [char_of (48 + n mod 10)] = dec (m div 10) @ [char_of (48 + m mod 10)]"
        using False m "1.prems" by (simp add: dec.simps [of n] dec.simps [of m])
      then have "dec (n div 10) = dec (m div 10)"
        and "char_of (48 + n mod 10) = (char_of (48 + m mod 10) :: char)"
        by simp_all
      then have "n div 10 = m div 10" and "n mod 10 = m mod 10"
        using "1.IH" [OF False] digit [of "n mod 10" "m mod 10"] by simp_all
      then show ?thesis
        by (metis div_mult_mod_eq)
    qed
  qed
  have "{k. c < k \<and> base @ dec k \<in> set names} \<subseteq> (\<lambda>k. base @ dec k) -` set names"
    by auto
  moreover have "inj (\<lambda>k. base @ dec k)"
    using inj by (auto simp: inj_def)
  ultimately have fin: "finite {k. c < k \<and> base @ dec k \<in> set names}"
    by (meson finite_vimageI finite_set finite_subset)
  have "{k. Suc c < k \<and> base @ dec k \<in> set names} \<subset> {k. c < k \<and> base @ dec k \<in> set names}"
    using taken by auto
  then have "card {k. Suc c < k \<and> base @ dec k \<in> set names}
      < card {k. c < k \<and> base @ dec k \<in> set names}"
    using fin by (rule psubset_card_mono [rotated])
  then show "((names, base, Suc c), (names, base, c))
      \<in> measure (\<lambda>(names, base, c). card {k. c < k \<and> base @ dec k \<in> set names})"
    by simp
qed

declare nextUnique.simps [simp del]

definition makeUniqueName :: "Module \<Rightarrow> string \<Rightarrow> string \<times> Module" where
  "makeUniqueName M Name =
     (if Name \<in> set (valueNames M)
      then (let c = nextUnique (valueNames M) Name (lastUnique M)
            in (Name @ dec c, M\<lparr>lastUnique := c\<rparr>))
      else (Name, M))"

definition newGlobalVariable :: "Module \<Rightarrow> GlobalVariable \<Rightarrow> string \<times> Module" where
  "newGlobalVariable M GV =
     (case makeUniqueName M (gvName GV) of
        (Name, M1) \<Rightarrow> (Name, M1\<lparr>globalList := globalList M1 @ [GV\<lparr>gvName := Name\<rparr>]\<rparr>))"

definition newFunction :: "Module \<Rightarrow> Function \<Rightarrow> string \<times> Module" where
  "newFunction M F =
     (case makeUniqueName M (fnName F) of
        (Name, M1) \<Rightarrow> (Name, M1\<lparr>functionList := functionList M1 @ [F\<lparr>fnName := Name\<rparr>]\<rparr>))"

text \<open>
  Erasing the variable found under a name: names are unique in the symbol table, so
  no variable of that name is left.
\<close>

definition eraseFromParent :: "Module \<Rightarrow> string \<Rightarrow> Module" where
  "eraseFromParent M Name = M\<lparr>globalList := filter (\<lambda>GV. gvName GV \<noteq> Name) (globalList M)\<rparr>"

text \<open>\<^verbatim>\<open>appendToUsed\<close> keeps a set in insertion order.\<close>

definition appendToUsed :: "Module \<Rightarrow> string \<Rightarrow> Module" where
  "appendToUsed M Name =
     (if Name \<in> set (usedList M) then M else M\<lparr>usedList := usedList M @ [Name]\<rparr>)"

definition getOrInsertGlobal ::
    "Module \<Rightarrow> string \<Rightarrow> GlobalVariable \<Rightarrow> GlobalVariable \<times> Module" where
  "getOrInsertGlobal M Name Created =
     (case getNamedGlobal M Name of
        Some GV \<Rightarrow> (GV, M)
      | None \<Rightarrow> (case newGlobalVariable M Created of
                   (Name1, M1) \<Rightarrow> (Created\<lparr>gvName := Name1\<rparr>, M1)))"


subsection \<open>The pass\<close>

text \<open>
  The two command-line options, \<^verbatim>\<open>nvptx-lower-global-ctor-dtor-id\<close> and
  \<^verbatim>\<open>nvptx-emit-init-fini-kernel\<close>.
\<close>

record Options =
  GlobalStr :: string
  CreateKernels :: bool

text \<open>\<^verbatim>\<open>llvm::ADDRESS_SPACE_GLOBAL\<close> of \<^verbatim>\<open>NVPTXBaseInfo.h\<close>.\<close>

definition ADDRESS_SPACE_GLOBAL :: nat where
  "ADDRESS_SPACE_GLOBAL = 1"

definition addKernelAttrs :: "Function \<Rightarrow> Function" where
  "addKernelAttrs F =
     F\<lparr>fnAttrs := fnAttrs F @ [(''nvvm.maxclusterrank'', ''1''), (''nvvm.maxntid'', ''1'')],
       fnCallingConv := PTX_Kernel\<rparr>"

definition InitOrFiniKernelName :: "bool \<Rightarrow> string" where
  "InitOrFiniKernelName IsCtor = (if IsCtor then ''nvptx$device$init'' else ''nvptx$device$fini'')"

text \<open>Returns the name of the new function, or \<open>None\<close> for the null pointer.\<close>

definition createInitOrFiniKernelFunction :: "Module \<Rightarrow> bool \<Rightarrow> (string \<times> Module) option" where
  "createInitOrFiniKernelFunction M IsCtor =
     (if getFunction M (InitOrFiniKernelName IsCtor) \<noteq> None then None
      else Some (newFunction M (addKernelAttrs
        \<lparr>fnName = InitOrFiniKernelName IsCtor, fnType = FunctionTy VoidTy [],
         fnLinkage = WeakODRLinkage, fnAddressSpace = 0, fnAttrs = [],
         fnCallingConv = CallingConv_C, fnBlocks = []\<rparr>)))"

definition boundaryGlobal :: "string \<Rightarrow> GlobalVariable" where
  "boundaryGlobal Name =
     \<lparr>gvName = Name, gvType = PointerTy 0, gvIsConstant = False, gvLinkage = WeakAnyLinkage,
      gvInitializer = Some (ConstantPointerNull 0), gvThreadLocal = False,
      gvAddressSpace = ADDRESS_SPACE_GLOBAL, gvSection = [],
      gvVisibility = ProtectedVisibility\<rparr>"

text \<open>
  The three blocks \<^verbatim>\<open>createInitOrFiniCalls\<close> builds, for the two boundary variables
  \<open>Begin\<close> and \<open>End\<close> and the address space of the kernel.
\<close>

definition entryInstructions :: "bool \<Rightarrow> GlobalVariable \<Rightarrow> GlobalVariable \<Rightarrow> Instruction list" where
  "entryInstructions IsCtor Begin End =
     [Load ''begin'' (PointerTy (gvAddressSpace Begin)) (GlobalAddr (gvName Begin)),
      Load ''stop'' (PointerTy (gvAddressSpace Begin)) (GlobalAddr (gvName End))] @
     (if \<not> IsCtor then
        [PtrToInt ''0'' (Reg ''begin'') (IntegerTy 64),
         PtrToInt ''1'' (Reg ''stop'') (IntegerTy 64),
         Sub ''2'' (Reg ''1'') (Reg ''0''),
         AShr ''offset'' (Reg ''2'') (ConstInt64 3) True,
         GEP ''3'' (PointerTy 0) (Reg ''begin'') (Reg ''offset'') False,
         GEP ''start'' (PointerTy 0) (Reg ''3'') (ConstInt64 (- 1)) True]
      else []) @
     [ICmp (if IsCtor then ''0'' else ''4'') (if IsCtor then ICMP_NE else ICMP_UGT)
        (Reg (if IsCtor then ''begin'' else ''start''))
        (Reg (if IsCtor then ''stop'' else ''begin'')),
      CondBr (Reg (if IsCtor then ''0'' else ''4'')) ''while.entry'' ''while.end'']"

definition loopInstructions :: "bool \<Rightarrow> nat \<Rightarrow> Instruction list" where
  "loopInstructions IsCtor AddressSpace =
     [PHI ''ptr'' (PointerTy ADDRESS_SPACE_GLOBAL)
        [(Reg (if IsCtor then ''begin'' else ''start''), ''entry''),
         (Reg ''next'', ''while.entry'')],
      Load ''callback'' (PointerTy AddressSpace) (Reg ''ptr''),
      Call (FunctionTy VoidTy []) (Reg ''callback''),
      GEP ''next'' (PointerTy ADDRESS_SPACE_GLOBAL) (Reg ''ptr'')
        (ConstInt64 (if IsCtor then 1 else - 1)) False,
      ICmp ''end'' (if IsCtor then ICMP_EQ else ICMP_ULT) (Reg ''next'')
        (Reg (if IsCtor then ''stop'' else ''begin'')),
      CondBr (Reg ''end'') ''while.end'' ''while.entry'']"

definition initOrFiniBlocks ::
    "bool \<Rightarrow> nat \<Rightarrow> GlobalVariable \<Rightarrow> GlobalVariable \<Rightarrow> BasicBlock list" where
  "initOrFiniBlocks IsCtor AddressSpace Begin End =
     [\<lparr>bbName = ''entry'', bbInstructions = entryInstructions IsCtor Begin End\<rparr>,
      \<lparr>bbName = ''while.entry'', bbInstructions = loopInstructions IsCtor AddressSpace\<rparr>,
      \<lparr>bbName = ''while.end'', bbInstructions = [RetVoid]\<rparr>]"

definition BeginName :: "bool \<Rightarrow> string" where
  "BeginName IsCtor = (if IsCtor then ''__init_array_start'' else ''__fini_array_start'')"

definition EndName :: "bool \<Rightarrow> string" where
  "EndName IsCtor = (if IsCtor then ''__init_array_end'' else ''__fini_array_end'')"

definition createInitOrFiniCalls :: "Module \<Rightarrow> string \<Rightarrow> bool \<Rightarrow> Module" where
  "createInitOrFiniCalls M F IsCtor =
     (case getOrInsertGlobal M (BeginName IsCtor) (boundaryGlobal (BeginName IsCtor)) of
        (Begin, M1) \<Rightarrow>
     (case getOrInsertGlobal M1 (EndName IsCtor) (boundaryGlobal (EndName IsCtor)) of
        (End, M2) \<Rightarrow>
       M2\<lparr>functionList := map (\<lambda>Fn. if fnName Fn = F
             then Fn\<lparr>fnBlocks := fnBlocks Fn @ initOrFiniBlocks IsCtor (fnAddressSpace Fn) Begin End\<rparr>
             else Fn) (functionList M2)\<rparr>))"

text \<open>The local variables of the loop of \<^verbatim>\<open>createInitOrFiniGlobals\<close>.\<close>

definition PriorityStr :: "64 word \<Rightarrow> string" where
  "PriorityStr Priority = ''.'' @ to_string Priority"

definition GlobalID :: "Options \<Rightarrow> Module \<Rightarrow> string" where
  "GlobalID Opts M = (if GlobalStr Opts \<noteq> [] then GlobalStr Opts else getHash (sourceFileName M))"

text \<open>\<^verbatim>\<open>llvm::transform(NameStr, NameStr.begin(), [](char c) { return c == '.' ? '_' : c; })\<close>\<close>

definition replaceDots :: "string \<Rightarrow> string" where
  "replaceDots Str = map (\<lambda>c. if c = CHR ''.'' then CHR ''_'' else c) Str"

definition NameStr :: "bool \<Rightarrow> string \<Rightarrow> string \<Rightarrow> 64 word \<Rightarrow> string" where
  "NameStr IsCtor FName ID Priority =
     replaceDots
       ((if IsCtor then ''__init_array_object_'' else ''__fini_array_object_'') @
        FName @ ''_'' @ ID @ ''_'' @ to_string Priority)"

definition entryGlobal :: "Options \<Rightarrow> Module \<Rightarrow> bool \<Rightarrow> Constant \<Rightarrow> 64 word \<Rightarrow> GlobalVariable" where
  "entryGlobal Opts M IsCtor F Priority =
     \<lparr>gvName = NameStr IsCtor (getName F) (GlobalID Opts M) Priority,
      gvType = getType F, gvIsConstant = True, gvLinkage = ExternalLinkage,
      gvInitializer = Some F, gvThreadLocal = False, gvAddressSpace = 4,
      gvSection = (if IsCtor then ''.init_array'' @ PriorityStr Priority
                   else ''.fini_array'' @ PriorityStr Priority),
      gvVisibility = ProtectedVisibility\<rparr>"

fun createInitOrFiniGlobals_loop ::
    "Options \<Rightarrow> bool \<Rightarrow> Constant list \<Rightarrow> Module \<Rightarrow> Error + Module" where
  "createInitOrFiniGlobals_loop Opts IsCtor [] M = Inr M"
| "createInitOrFiniGlobals_loop Opts IsCtor (V # Vs) M =
     (case V of
        ConstantStruct (ConstantInt w v # F # rest) \<Rightarrow>
          (case getSExtValue v of
             Inl e \<Rightarrow> Inl e
           | Inr Priority \<Rightarrow>
               (case newGlobalVariable M (entryGlobal Opts M IsCtor F Priority) of
                  (Name, M1) \<Rightarrow> createInitOrFiniGlobals_loop Opts IsCtor Vs (appendToUsed M1 Name)))
      | _ \<Rightarrow> Inl CastFailed)"

text \<open>
  A record the loop accepts: a struct whose first operand is an integer that fits 64
  bits and that has a second operand, the target.
\<close>

fun validRecord :: "Constant \<Rightarrow> bool" where
  "validRecord (ConstantStruct (ConstantInt w v # F # rest)) = (- (2 ^ 63) \<le> v \<and> v < 2 ^ 63)"
| "validRecord _ = False"

fun recordTarget :: "Constant \<Rightarrow> Constant option" where
  "recordTarget (ConstantStruct (P # F # rest)) = Some F"
| "recordTarget _ = None"

definition createInitOrFiniGlobals ::
    "Options \<Rightarrow> Module \<Rightarrow> GlobalVariable \<Rightarrow> bool \<Rightarrow> Error + (bool \<times> Module)" where
  "createInitOrFiniGlobals Opts M GV IsCtor =
     (case gvInitializer GV of
        Some (ConstantArray GA) \<Rightarrow>
          (if GA = [] then Inr (False, M)
           else (case createInitOrFiniGlobals_loop Opts IsCtor GA M of
                   Inl e \<Rightarrow> Inl e
                 | Inr M1 \<Rightarrow> Inr (True, M1)))
      | _ \<Rightarrow> Inr (False, M))"

definition createInitOrFiniKernel ::
    "Options \<Rightarrow> Module \<Rightarrow> string \<Rightarrow> bool \<Rightarrow> Error + (bool \<times> Module)" where
  "createInitOrFiniKernel Opts M GlobalName IsCtor =
     (case getGlobalVariable M GlobalName of
        None \<Rightarrow> Inr (False, M)
      | Some GV \<Rightarrow>
          if \<not> hasInitializer GV then Inr (False, M)
          else (case createInitOrFiniGlobals Opts M GV IsCtor of
                  Inl e \<Rightarrow> Inl e
                | Inr (Created, M1) \<Rightarrow>
                    if \<not> Created then Inr (False, M1)
                    else if \<not> CreateKernels Opts then Inr (True, M1)
                    else (case createInitOrFiniKernelFunction M1 IsCtor of
                            None \<Rightarrow> Inr (False, M1)
                          | Some (InitOrFiniKernel, M2) \<Rightarrow>
                              Inr (True, eraseFromParent
                                (createInitOrFiniCalls M2 InitOrFiniKernel IsCtor) (gvName GV)))))"

definition lowerCtorsAndDtors :: "Options \<Rightarrow> Module \<Rightarrow> Error + (bool \<times> Module)" where
  "lowerCtorsAndDtors Opts M =
     (case createInitOrFiniKernel Opts M ''llvm.global_ctors'' True of
        Inl e \<Rightarrow> Inl e
      | Inr (Modified1, M1) \<Rightarrow>
          (case createInitOrFiniKernel Opts M1 ''llvm.global_dtors'' False of
             Inl e \<Rightarrow> Inl e
           | Inr (Modified2, M2) \<Rightarrow> Inr (Modified1 \<or> Modified2, M2)))"

text \<open>
  What the statements below say of a record \<open>R\<close> of the array and the variable \<open>G\<close>
  made for it: \<open>G\<close> is the variable the loop builds from the record, up to the
  number the symbol table may append to its name.
\<close>

definition entryPrefix :: "bool \<Rightarrow> string" where
  "entryPrefix IsCtor = (if IsCtor then ''__init_array_object_'' else ''__fini_array_object_'')"

definition entryOf :: "Options \<Rightarrow> Module \<Rightarrow> bool \<Rightarrow> Constant \<Rightarrow> GlobalVariable \<Rightarrow> bool" where
  "entryOf Opts M IsCtor R G =
     (case R of
        ConstantStruct (ConstantInt w v # F # rest) \<Rightarrow>
          (case getSExtValue v of
             Inl e \<Rightarrow> False
           | Inr Priority \<Rightarrow>
               prefix (gvName (entryGlobal Opts M IsCtor F Priority)) (gvName G)
               \<and> G = (entryGlobal Opts M IsCtor F Priority)\<lparr>gvName := gvName G\<rparr>)
      | _ \<Rightarrow> False)"

definition arrayPrefix :: "bool \<Rightarrow> string" where
  "arrayPrefix IsCtor = (if IsCtor then ''__init_array_'' else ''__fini_array_'')"

definition boundaryNames :: "string list" where
  "boundaryNames = [BeginName True, EndName True, BeginName False, EndName False]"

text \<open>The metadata array of that name is there, non-empty, and every record is one the loop accepts.\<close>

definition validArray :: "Module \<Rightarrow> string \<Rightarrow> bool" where
  "validArray M GlobalName =
     (case getGlobalVariable M GlobalName of
        None \<Rightarrow> False
      | Some GV \<Rightarrow>
          (case gvInitializer GV of
             Some (ConstantArray GA) \<Rightarrow> GA \<noteq> [] \<and> list_all validRecord GA
           | _ \<Rightarrow> False))"

subsection \<open>Running a synthesized kernel\<close>

text \<open>
  What the blocks built above do when the loader has filled the boundary variables: an
  interpreter for the instructions the pass emits. Pointers and integers are 64-bit
  words, a slot is 8 bytes, memory maps the address of a slot to the word stored
  there, and every global variable has an address. The run records the blocks entered,
  the addresses loaded from and the addresses called. A called callback returns and
  leaves the memory read here as it was. An \<^verbatim>\<open>exact\<close> shift that drops a set bit is
  poison, which the pass's code always passes on to a branch; the run stops there with
  an error. The \<^verbatim>\<open>inbounds\<close> flag is not interpreted.
\<close>

datatype Event = EnterBlock string | LoadFrom "64 word" | CallTo "64 word"

datatype ExecError = OutOfFuel | UndefinedValue | PoisonValue | NoSuchBlock | NoTerminator

datatype Flow = Next | Jump string | Return

type_synonym Registers = "string \<Rightarrow> 64 word option"

fun evalOperand :: "(string \<Rightarrow> 64 word) \<Rightarrow> Registers \<Rightarrow> Operand \<Rightarrow> 64 word option" where
  "evalOperand ga regs (GlobalAddr n) = Some (ga n)"
| "evalOperand ga regs (Reg r) = regs r"
| "evalOperand ga regs (ConstInt64 w) = Some w"

fun allocSize :: "Type \<Rightarrow> 64 word" where
  "allocSize (PointerTy as) = 8"
| "allocSize (IntegerTy w) = word_of_nat ((w + 7) div 8)"
| "allocSize _ = 0"

fun icmp :: "Predicate \<Rightarrow> 64 word \<Rightarrow> 64 word \<Rightarrow> bool" where
  "icmp ICMP_EQ a b = (a = b)"
| "icmp ICMP_NE a b = (a \<noteq> b)"
| "icmp ICMP_UGT a b = (a > b)"
| "icmp ICMP_ULT a b = (a < b)"

fun execInstruction :: "(string \<Rightarrow> 64 word) \<Rightarrow> (64 word \<Rightarrow> 64 word) \<Rightarrow> string \<Rightarrow>
    Instruction \<Rightarrow> Registers \<Rightarrow> ExecError + (Registers \<times> Event list \<times> Flow)" where
  "execInstruction ga mem pred (Load r ty p) regs =
     (case evalOperand ga regs p of
        None \<Rightarrow> Inl UndefinedValue
      | Some a \<Rightarrow> Inr (regs(r \<mapsto> mem a), [LoadFrom a], Next))"
| "execInstruction ga mem pred (PtrToInt r v ty) regs =
     (case evalOperand ga regs v of
        None \<Rightarrow> Inl UndefinedValue
      | Some x \<Rightarrow> Inr (regs(r \<mapsto> x), [], Next))"
| "execInstruction ga mem pred (Sub r a b) regs =
     (case (evalOperand ga regs a, evalOperand ga regs b) of
        (Some x, Some y) \<Rightarrow> Inr (regs(r \<mapsto> x - y), [], Next)
      | _ \<Rightarrow> Inl UndefinedValue)"
| "execInstruction ga mem pred (AShr r a b IsExact) regs =
     (case (evalOperand ga regs a, evalOperand ga regs b) of
        (Some x, Some y) \<Rightarrow>
          if 64 \<le> unat y \<or> (IsExact \<and> take_bit (unat y) x \<noteq> 0) then Inl PoisonValue
          else Inr (regs(r \<mapsto> signed_drop_bit (unat y) x), [], Next)
      | _ \<Rightarrow> Inl UndefinedValue)"
| "execInstruction ga mem pred (GEP r ty p i InBounds) regs =
     (case (evalOperand ga regs p, evalOperand ga regs i) of
        (Some x, Some y) \<Rightarrow> Inr (regs(r \<mapsto> x + y * allocSize ty), [], Next)
      | _ \<Rightarrow> Inl UndefinedValue)"
| "execInstruction ga mem pred (ICmp r p a b) regs =
     (case (evalOperand ga regs a, evalOperand ga regs b) of
        (Some x, Some y) \<Rightarrow> Inr (regs(r \<mapsto> (if icmp p x y then 1 else 0)), [], Next)
      | _ \<Rightarrow> Inl UndefinedValue)"
| "execInstruction ga mem pred (PHI r ty incoming) regs =
     (case find (\<lambda>(v, b). b = pred) incoming of
        None \<Rightarrow> Inl UndefinedValue
      | Some (v, b) \<Rightarrow>
          (case evalOperand ga regs v of
             None \<Rightarrow> Inl UndefinedValue
           | Some x \<Rightarrow> Inr (regs(r \<mapsto> x), [], Next)))"
| "execInstruction ga mem pred (Call ty f) regs =
     (case evalOperand ga regs f of
        None \<Rightarrow> Inl UndefinedValue
      | Some x \<Rightarrow> Inr (regs, [CallTo x], Next))"
| "execInstruction ga mem pred (CondBr c l1 l2) regs =
     (case evalOperand ga regs c of
        None \<Rightarrow> Inl UndefinedValue
      | Some x \<Rightarrow> Inr (regs, [], Jump (if x \<noteq> 0 then l1 else l2)))"
| "execInstruction ga mem pred RetVoid regs = Inr (regs, [], Return)"

fun execInstructions :: "(string \<Rightarrow> 64 word) \<Rightarrow> (64 word \<Rightarrow> 64 word) \<Rightarrow> string \<Rightarrow>
    Instruction list \<Rightarrow> Registers \<Rightarrow> ExecError + (Registers \<times> Event list \<times> Flow)" where
  "execInstructions ga mem pred [] regs = Inl NoTerminator"
| "execInstructions ga mem pred (I # Is) regs =
     (case execInstruction ga mem pred I regs of
        Inl e \<Rightarrow> Inl e
      | Inr (regs1, evs, Next) \<Rightarrow>
          (case execInstructions ga mem pred Is regs1 of
             Inl e \<Rightarrow> Inl e
           | Inr (regs2, evs2, fl) \<Rightarrow> Inr (regs2, evs @ evs2, fl))
      | Inr (regs1, evs, fl) \<Rightarrow> Inr (regs1, evs, fl))"

text \<open>One unit of fuel per block entered.\<close>

fun runBlocks :: "nat \<Rightarrow> (string \<Rightarrow> 64 word) \<Rightarrow> (64 word \<Rightarrow> 64 word) \<Rightarrow> BasicBlock list \<Rightarrow>
    string \<Rightarrow> string \<Rightarrow> Registers \<Rightarrow> ExecError + Event list" where
  "runBlocks 0 ga mem blocks pred cur regs = Inl OutOfFuel"
| "runBlocks (Suc fuel) ga mem blocks pred cur regs =
     (case find (\<lambda>B. bbName B = cur) blocks of
        None \<Rightarrow> Inl NoSuchBlock
      | Some B \<Rightarrow>
          (case execInstructions ga mem pred (bbInstructions B) regs of
             Inl e \<Rightarrow> Inl e
           | Inr (regs1, evs, Return) \<Rightarrow> Inr (EnterBlock cur # evs)
           | Inr (regs1, evs, Jump l) \<Rightarrow>
               (case runBlocks fuel ga mem blocks cur l regs1 of
                  Inl e \<Rightarrow> Inl e
                | Inr rest \<Rightarrow> Inr (EnterBlock cur # evs @ rest))
           | Inr (regs1, evs, Next) \<Rightarrow> Inl NoTerminator))"

definition runKernel :: "nat \<Rightarrow> (string \<Rightarrow> 64 word) \<Rightarrow> (64 word \<Rightarrow> 64 word) \<Rightarrow> BasicBlock list \<Rightarrow>
    ExecError + Event list" where
  "runKernel fuel ga mem blocks =
     (case blocks of
        [] \<Rightarrow> Inl NoSuchBlock
      | B # _ \<Rightarrow> runBlocks fuel ga mem blocks [] (bbName B) (\<lambda>r. None))"


subsection \<open>Example modules\<close>

text \<open>Concrete inputs on which the statements below are run.\<close>

definition arrayGlobal :: "string \<Rightarrow> Constant option \<Rightarrow> GlobalVariable" where
  "arrayGlobal Name Init =
     \<lparr>gvName = Name, gvType = AggregateTy, gvIsConstant = False, gvLinkage = AppendingLinkage,
      gvInitializer = Init, gvThreadLocal = False, gvAddressSpace = ADDRESS_SPACE_GLOBAL,
      gvSection = [], gvVisibility = DefaultVisibility\<rparr>"

definition declaredFunction :: "string \<Rightarrow> Function" where
  "declaredFunction Name =
     \<lparr>fnName = Name, fnType = FunctionTy VoidTy [], fnLinkage = ExternalLinkage,
      fnAddressSpace = 0, fnAttrs = [], fnCallingConv = CallingConv_C, fnBlocks = []\<rparr>"

definition ctorRecord :: "int \<Rightarrow> string \<Rightarrow> Constant" where
  "ctorRecord Priority Name =
     ConstantStruct [ConstantInt 32 Priority, GlobalRef Name 0, ConstantPointerNull 0]"

definition exampleModule :: "GlobalVariable list \<Rightarrow> Function list \<Rightarrow> Module" where
  "exampleModule GVs Fs =
     \<lparr>globalList = GVs, functionList = Fs, usedList = [], sourceFileName = ''a.cu'',
      lastUnique = 0\<rparr>"

definition exampleOptions :: "bool \<Rightarrow> Options" where
  "exampleOptions Kernels = \<lparr>GlobalStr = ''id'', CreateKernels = Kernels\<rparr>"

text \<open>
  A module with one constructor \<^verbatim>\<open>foo\<close> of priority 1, besides the functions \<open>Fs\<close>,
  and the same module once the materializer has added the entry-global.
\<close>

definition ctorsOfFoo :: GlobalVariable where
  "ctorsOfFoo = arrayGlobal ''llvm.global_ctors'' (Some (ConstantArray [ctorRecord 1 ''foo'']))"

definition fooEntry :: GlobalVariable where
  "fooEntry =
     \<lparr>gvName = ''__init_array_object_foo_id_1'', gvType = PointerTy 0, gvIsConstant = True,
      gvLinkage = ExternalLinkage, gvInitializer = Some (GlobalRef ''foo'' 0),
      gvThreadLocal = False, gvAddressSpace = 4, gvSection = ''.init_array.1'',
      gvVisibility = ProtectedVisibility\<rparr>"

definition fooModule :: "Function list \<Rightarrow> Module" where
  "fooModule Fs = exampleModule [ctorsOfFoo] (declaredFunction ''foo'' # Fs)"

definition fooModuleWithEntry :: "Function list \<Rightarrow> Module" where
  "fooModuleWithEntry Fs =
     (exampleModule [ctorsOfFoo, fooEntry] (declaredFunction ''foo'' # Fs))
       \<lparr>usedList := [''__init_array_object_foo_id_1'']\<rparr>"

text \<open>A module with one constructor \<^verbatim>\<open>foo\<close> and one destructor \<^verbatim>\<open>bar\<close>.\<close>

definition fooBarModule :: Module where
  "fooBarModule =
     exampleModule
       [ctorsOfFoo, arrayGlobal ''llvm.global_dtors'' (Some (ConstantArray [ctorRecord 1 ''bar'']))]
       [declaredFunction ''foo'', declaredFunction ''bar'']"

text \<open>The module with one constructor of priority -1, after the loop over its records.\<close>

definition minusOneLowered :: Module where
  "minusOneLowered = ((exampleModule
        [\<lparr>gvName = ''__init_array_object_foo_id_18446744073709551615'',
          gvType = PointerTy 0, gvIsConstant = True, gvLinkage = ExternalLinkage,
          gvInitializer = Some (GlobalRef ''foo'' 0), gvThreadLocal = False, gvAddressSpace = 4,
          gvSection = ''.init_array.18446744073709551615'',
          gvVisibility = ProtectedVisibility\<rparr>] [])
        \<lparr>usedList := [''__init_array_object_foo_id_18446744073709551615'']\<rparr>)"

section \<open>Properties\<close>

subsection \<open>Lookups and the frame of the module operations\<close>

lemma find_append_notin:
  "\<forall>x \<in> set ys. \<not> P x \<Longrightarrow> find P (xs @ ys) = find P xs"
  by (induction xs) (auto simp: find_None_iff)

lemma find_filter_other:
  "(\<And>x. P x \<Longrightarrow> Q x) \<Longrightarrow> find P (filter Q xs) = find P xs"
  by (induction xs) auto

lemma find_filter_none:
  "(\<And>x. P x \<Longrightarrow> \<not> Q x) \<Longrightarrow> find P (filter Q xs) = None"
  by (induction xs) auto

lemma makeUniqueName_frame:
  assumes "makeUniqueName M Name = (N', M1)"
  shows "prefix Name N'" and "globalList M1 = globalList M" and "functionList M1 = functionList M"
    and "usedList M1 = usedList M" and "sourceFileName M1 = sourceFileName M"
  using assms by (auto simp: makeUniqueName_def Let_def split: if_splits)

lemma newGlobalVariable_frame:
  assumes "newGlobalVariable M GV = (N', M1)"
  shows "prefix (gvName GV) N'" and "globalList M1 = globalList M @ [GV\<lparr>gvName := N'\<rparr>]"
    and "functionList M1 = functionList M" and "sourceFileName M1 = sourceFileName M"
proof -
  obtain N M0 where mk: "makeUniqueName M (gvName GV) = (N, M0)"
    by (cases "makeUniqueName M (gvName GV)")
  from assms have eq: "N' = N" "M1 = M0\<lparr>globalList := globalList M0 @ [GV\<lparr>gvName := N\<rparr>]\<rparr>"
    by (auto simp: newGlobalVariable_def mk)
  show "prefix (gvName GV) N'"
    using makeUniqueName_frame(1) [OF mk] eq by simp
  show "globalList M1 = globalList M @ [GV\<lparr>gvName := N'\<rparr>]"
    using makeUniqueName_frame(2) [OF mk] eq by simp
  show "functionList M1 = functionList M"
    using makeUniqueName_frame(3) [OF mk] eq by simp
  show "sourceFileName M1 = sourceFileName M"
    using makeUniqueName_frame(5) [OF mk] eq by simp
qed

lemma newFunction_frame:
  assumes "newFunction M F = (N', M1)"
  shows "prefix (fnName F) N'" and "functionList M1 = functionList M @ [F\<lparr>fnName := N'\<rparr>]"
    and "globalList M1 = globalList M" and "sourceFileName M1 = sourceFileName M"
proof -
  obtain N M0 where mk: "makeUniqueName M (fnName F) = (N, M0)"
    by (cases "makeUniqueName M (fnName F)")
  from assms have eq: "N' = N" "M1 = M0\<lparr>functionList := functionList M0 @ [F\<lparr>fnName := N\<rparr>]\<rparr>"
    by (auto simp: newFunction_def mk)
  show "prefix (fnName F) N'"
    using makeUniqueName_frame(1) [OF mk] eq by simp
  show "functionList M1 = functionList M @ [F\<lparr>fnName := N'\<rparr>]"
    using makeUniqueName_frame(3) [OF mk] eq by simp
  show "globalList M1 = globalList M"
    using makeUniqueName_frame(2) [OF mk] eq by simp
  show "sourceFileName M1 = sourceFileName M"
    using makeUniqueName_frame(5) [OF mk] eq by simp
qed

lemma appendToUsed_frame:
  "globalList (appendToUsed M n) = globalList M"
  "functionList (appendToUsed M n) = functionList M"
  "sourceFileName (appendToUsed M n) = sourceFileName M"
  by (simp_all add: appendToUsed_def)

subsection \<open>Decimal rendering and the names of the entry-globals\<close>

lemma dec_nonempty: "dec n \<noteq> []"
  by (subst dec.simps) simp

lemma digit_char_inj:
  fixes a b :: nat
  assumes "char_of (48 + a) = (char_of (48 + b) :: char)" "a < 10" "b < 10"
  shows "a = b"
proof -
  have "(of_char (char_of (48 + a) :: char) :: nat) = of_char (char_of (48 + b) :: char)"
    using assms(1) by simp
  then show ?thesis
    using assms(2,3) by simp
qed

lemma dec_small: "n < 10 \<Longrightarrow> dec n = [char_of (48 + n)]"
  by (subst dec.simps) simp

lemma dec_large: "\<not> n < 10 \<Longrightarrow> dec n = dec (n div 10) @ [char_of (48 + n mod 10)]"
  by (subst dec.simps) simp

lemma dec_inj: "dec n = dec m \<Longrightarrow> n = m"
proof (induction n arbitrary: m rule: dec.induct)
  case (1 n)
  show ?case
  proof (cases "n < 10")
    case True
    have "m < 10"
    proof (rule ccontr)
      assume "\<not> m < 10"
      then show False
        using "1.prems" True dec_nonempty [of "m div 10"]
        by (simp add: dec_small dec_large)
    qed
    then show ?thesis
      using True "1.prems" digit_char_inj [of n m] by (simp add: dec_small)
  next
    case False
    have m: "\<not> m < 10"
    proof
      assume "m < 10"
      then show False
        using "1.prems" False dec_nonempty [of "n div 10"]
        by (simp add: dec_small dec_large)
    qed
    have "dec (n div 10) = dec (m div 10)"
      and "char_of (48 + n mod 10) = (char_of (48 + m mod 10) :: char)"
      using False m "1.prems" by (simp_all add: dec_large)
    then have "n div 10 = m div 10" and "n mod 10 = m mod 10"
      using "1.IH" [OF False] digit_char_inj [of "n mod 10" "m mod 10"] by simp_all
    then show ?thesis
      by (metis div_mult_mod_eq)
  qed
qed

lemma digit_chars: "list_all (\<lambda>d. (char_of (48 + d) :: char) \<in> set ''0123456789'') [0..<10::nat]"
  by code_simp

lemma digit_char_cases:
  fixes d :: nat
  assumes "d < 10"
  shows "(char_of (48 + d) :: char) \<in> set ''0123456789''"
proof -
  have "d \<in> set [0..<10]"
    using assms by simp
  with digit_chars show ?thesis
    unfolding list_all_iff by blast
qed

lemma dec_digits: "c \<in> set (dec n) \<Longrightarrow> c \<in> set ''0123456789''"
proof (induction n rule: dec.induct)
  case (1 n)
  show ?case
  proof (cases "n < 10")
    case True
    then show ?thesis
      using "1.prems" digit_char_cases [of n] by (simp add: dec_small)
  next
    case False
    then show ?thesis
      using "1.prems" "1.IH" digit_char_cases [of "n mod 10"] by (auto simp: dec_large)
  qed
qed

lemma dec_no_separator: "CHR ''_'' \<notin> set (dec n)" "CHR ''.'' \<notin> set (dec n)" "CHR ''-'' \<notin> set (dec n)"
  using dec_digits [of _ n] by auto

lemma replaceDots_append: "replaceDots (xs @ ys) = replaceDots xs @ replaceDots ys"
  by (simp add: replaceDots_def)

lemma replaceDots_Cons:
  "replaceDots [] = []"
  "replaceDots (c # xs) = (if c = CHR ''.'' then CHR ''_'' else c) # replaceDots xs"
  by (simp_all add: replaceDots_def)

lemma replaceDots_id: "CHR ''.'' \<notin> set xs \<Longrightarrow> replaceDots xs = xs"
  by (induction xs) (auto simp: replaceDots_def)

lemma replaceDots_dec: "replaceDots (dec n) = dec n"
  by (rule replaceDots_id) (rule dec_no_separator)

lemma NameStr_shape:
  "NameStr IsCtor FName ID Priority =
     entryPrefix IsCtor @ (replaceDots FName @ ''_'' @ replaceDots ID) @ ''_'' @ dec (unat Priority)"
  by (simp add: NameStr_def entryPrefix_def replaceDots_append replaceDots_Cons replaceDots_dec
      to_string_def)

lemma split_last_separator:
  assumes "xs @ c # ds = ys @ c # es" "c \<notin> set ds" "c \<notin> set es"
  shows "xs = ys \<and> ds = es"
  using assms
proof (induction xs arbitrary: ys)
  case Nil
  then show ?case
    by (cases ys) auto
next
  case (Cons x xs)
  then show ?case
    by (cases ys) auto
qed

lemma NameStr_eq_iff:
  "NameStr IsCtor F1 ID P1 = NameStr IsCtor F2 ID P2 \<longleftrightarrow> replaceDots F1 = replaceDots F2 \<and> P1 = P2"
proof
  assume eq: "NameStr IsCtor F1 ID P1 = NameStr IsCtor F2 ID P2"
  then have "(replaceDots F1 @ ''_'' @ replaceDots ID) @ CHR ''_'' # dec (unat P1)
      = (replaceDots F2 @ ''_'' @ replaceDots ID) @ CHR ''_'' # dec (unat P2)"
    by (simp add: NameStr_shape)
  then have "replaceDots F1 @ ''_'' @ replaceDots ID = replaceDots F2 @ ''_'' @ replaceDots ID"
    and "dec (unat P1) = dec (unat P2)"
    using split_last_separator [OF _ dec_no_separator(1) dec_no_separator(1)] by blast+
  then show "replaceDots F1 = replaceDots F2 \<and> P1 = P2"
    using dec_inj by (auto simp: word_unat_eq_iff)
next
  assume "replaceDots F1 = replaceDots F2 \<and> P1 = P2"
  then show "NameStr IsCtor F1 ID P1 = NameStr IsCtor F2 ID P2"
    by (simp add: NameStr_shape)
qed

lemma getSExtValue_Inr:
  assumes "getSExtValue v = Inr P"
  shows "P = word_of_int v" and "sint P = v"
proof -
  from assms have r: "- (2 ^ 63) \<le> v" "v < 2 ^ 63" and P: "P = word_of_int v"
    by (auto simp: getSExtValue_def split: if_splits)
  show "P = word_of_int v" by (rule P)
  show "sint P = v"
    using r by (simp add: P sint_sbintrunc' signed_take_bit_int_eq_self)
qed

lemma unat_negative:
  assumes "- (2 ^ 63) \<le> v" "v < 0"
  shows "unat (word_of_int v :: 64 word) = nat (2 ^ 64 + v)"
proof -
  have "uint (word_of_int v :: 64 word) = v mod 2 ^ 64"
    by (simp add: uint_word_of_int)
  also have "v mod 2 ^ 64 = (v + 2 ^ 64) mod 2 ^ 64"
    by simp
  also have "\<dots> = v + 2 ^ 64"
    using assms by (intro mod_pos_pos_trivial) auto
  finally show ?thesis
    by (simp add: unat_eq_nat_uint add.commute)
qed

lemma digit_char_values:
  "(char_of (48 :: nat) :: char) = CHR ''0''" "(char_of (49 :: nat) :: char) = CHR ''1''"
  "(char_of (50 :: nat) :: char) = CHR ''2''" "(char_of (51 :: nat) :: char) = CHR ''3''"
  "(char_of (52 :: nat) :: char) = CHR ''4''" "(char_of (53 :: nat) :: char) = CHR ''5''"
  "(char_of (54 :: nat) :: char) = CHR ''6''" "(char_of (55 :: nat) :: char) = CHR ''7''"
  "(char_of (56 :: nat) :: char) = CHR ''8''" "(char_of (57 :: nat) :: char) = CHR ''9''"
  by code_simp+

subsection \<open>The loop over the records\<close>

lemma GlobalID_cong: "sourceFileName M1 = sourceFileName M \<Longrightarrow> GlobalID Opts M1 = GlobalID Opts M"
  by (simp add: GlobalID_def)

lemma entryGlobal_cong:
  assumes "sourceFileName M1 = sourceFileName M"
  shows "entryGlobal Opts M1 = entryGlobal Opts M"
  using GlobalID_cong [OF assms, of Opts] by (intro ext) (simp add: entryGlobal_def)

lemma entryOf_cong:
  assumes "sourceFileName M1 = sourceFileName M"
  shows "entryOf Opts M1 = entryOf Opts M"
  by (intro ext) (simp only: entryOf_def entryGlobal_cong [OF assms])

lemma globals_loop_step:
  assumes "createInitOrFiniGlobals_loop Opts IsCtor (V # Vs) M = Inr M'"
  obtains w v F rest Priority Name M1 where
    "V = ConstantStruct (ConstantInt w v # F # rest)"
    "getSExtValue v = Inr Priority"
    "newGlobalVariable M (entryGlobal Opts M IsCtor F Priority) = (Name, M1)"
    "createInitOrFiniGlobals_loop Opts IsCtor Vs (appendToUsed M1 Name) = Inr M'"
  using assms
  by (auto split: Constant.splits list.splits sum.splits prod.splits)

lemma globals_loop_result:
  assumes "createInitOrFiniGlobals_loop Opts IsCtor Vs M = Inr M'"
  shows "\<exists>new. globalList M' = globalList M @ new \<and> list_all2 (entryOf Opts M IsCtor) Vs new
           \<and> functionList M' = functionList M \<and> sourceFileName M' = sourceFileName M"
  using assms
proof (induction Vs arbitrary: M)
  case Nil
  then show ?case by simp
next
  case (Cons V Vs)
  from Cons.prems obtain w v F rest Priority Name M1 where
    V: "V = ConstantStruct (ConstantInt w v # F # rest)"
    and P: "getSExtValue v = Inr Priority"
    and new: "newGlobalVariable M (entryGlobal Opts M IsCtor F Priority) = (Name, M1)"
    and rest: "createInitOrFiniGlobals_loop Opts IsCtor Vs (appendToUsed M1 Name) = Inr M'"
    by (rule globals_loop_step)
  let ?G = "(entryGlobal Opts M IsCtor F Priority)\<lparr>gvName := Name\<rparr>"
  have src: "sourceFileName (appendToUsed M1 Name) = sourceFileName M"
    using newGlobalVariable_frame(4) [OF new] by (simp add: appendToUsed_frame)
  from Cons.IH [OF rest] obtain new' where
    gl: "globalList M' = globalList (appendToUsed M1 Name) @ new'"
    and all: "list_all2 (entryOf Opts (appendToUsed M1 Name) IsCtor) Vs new'"
    and fl: "functionList M' = functionList (appendToUsed M1 Name)"
    and sf: "sourceFileName M' = sourceFileName (appendToUsed M1 Name)"
    by blast
  have "globalList M' = globalList M @ (?G # new')"
    using gl newGlobalVariable_frame(2) [OF new] by (simp add: appendToUsed_frame)
  moreover have "entryOf Opts M IsCtor V ?G"
    using newGlobalVariable_frame(1) [OF new] by (simp add: entryOf_def V P)
  moreover have "list_all2 (entryOf Opts M IsCtor) Vs new'"
    using all by (simp add: entryOf_cong [OF src])
  moreover have "functionList M' = functionList M"
    using fl newGlobalVariable_frame(3) [OF new] by (simp add: appendToUsed_frame)
  moreover have "sourceFileName M' = sourceFileName M"
    using sf src by simp
  ultimately show ?case
    by auto
qed

lemma validRecord_cases:
  assumes "validRecord V"
  obtains w v F rest where "V = ConstantStruct (ConstantInt w v # F # rest)"
    "- (2 ^ 63) \<le> v" "v < 2 ^ 63"
  using assms by (cases V rule: validRecord.cases) auto

lemma globals_loop_total:
  "list_all validRecord Vs \<Longrightarrow> \<exists>M'. createInitOrFiniGlobals_loop Opts IsCtor Vs M = Inr M'"
proof (induction Vs arbitrary: M)
  case Nil
  then show ?case by simp
next
  case (Cons V Vs)
  then have "validRecord V" and rest: "list_all validRecord Vs"
    by simp_all
  then obtain w v F rest' where V: "V = ConstantStruct (ConstantInt w v # F # rest')"
    and r: "- (2 ^ 63) \<le> v" "v < 2 ^ 63"
    by (auto elim: validRecord_cases)
  obtain Name M1 where
    new: "newGlobalVariable M (entryGlobal Opts M IsCtor F (word_of_int v)) = (Name, M1)"
    by (cases "newGlobalVariable M (entryGlobal Opts M IsCtor F (word_of_int v))")
  from Cons.IH [OF rest, of "appendToUsed M1 Name"] show ?case
    using r by (simp add: V getSExtValue_def new)
qed

subsection \<open>What the materializer adds to the module\<close>

lemma find_append_eq:
  "find P (xs @ ys) = (case find P xs of None \<Rightarrow> find P ys | Some x \<Rightarrow> Some x)"
  by (induction xs) auto

lemma entryOf_cases:
  assumes "entryOf Opts M IsCtor R G"
  obtains w v F rest Priority where
    "R = ConstantStruct (ConstantInt w v # F # rest)"
    "getSExtValue v = Inr Priority"
    "prefix (gvName (entryGlobal Opts M IsCtor F Priority)) (gvName G)"
    "G = (entryGlobal Opts M IsCtor F Priority)\<lparr>gvName := gvName G\<rparr>"
proof -
  from assms obtain ops where R: "R = ConstantStruct ops"
    by (cases R) (simp_all add: entryOf_def)
  from assms R obtain P ops' where ops: "ops = P # ops'"
    by (cases ops) (simp_all add: entryOf_def)
  from assms R ops obtain w v where P: "P = ConstantInt w v"
    by (cases P; cases ops') (simp_all add: entryOf_def)
  from assms R ops P obtain F rest where ops': "ops' = F # rest"
    by (cases ops') (simp_all add: entryOf_def)
  from assms R ops P ops' obtain Priority where Pr: "getSExtValue v = Inr Priority"
    by (cases "getSExtValue v") (simp_all add: entryOf_def)
  from assms have "prefix (gvName (entryGlobal Opts M IsCtor F Priority)) (gvName G)"
    and "G = (entryGlobal Opts M IsCtor F Priority)\<lparr>gvName := gvName G\<rparr>"
    by (simp_all add: entryOf_def R ops P ops' Pr)
  with R ops P ops' Pr show ?thesis
    by (auto intro: that)
qed

lemma entryOf_prefix:
  assumes "entryOf Opts M IsCtor R G"
  shows "prefix (entryPrefix IsCtor) (gvName G)"
proof -
  from assms obtain F Priority where
    "prefix (gvName (entryGlobal Opts M IsCtor F Priority)) (gvName G)"
    by (rule entryOf_cases)
  moreover have "prefix (entryPrefix IsCtor) (gvName (entryGlobal Opts M IsCtor F Priority))"
    by (simp add: entryGlobal_def NameStr_shape)
  ultimately show ?thesis
    by (rule prefix_order.trans [rotated])
qed

lemma entryOf_target:
  assumes "entryOf Opts M IsCtor R G"
  shows "gvInitializer G = recordTarget R" and "gvIsConstant G"
proof -
  from assms obtain w v F rest Priority where R: "R = ConstantStruct (ConstantInt w v # F # rest)"
    and G: "G = (entryGlobal Opts M IsCtor F Priority)\<lparr>gvName := gvName G\<rparr>"
    by (rule entryOf_cases)
  show "gvInitializer G = recordTarget R"
    by (subst G) (simp add: R entryGlobal_def)
  show "gvIsConstant G"
    by (subst G) (simp add: entryGlobal_def)
qed

lemma entryPrefix_not_boundary:
  "prefix (entryPrefix IsCtor) n \<Longrightarrow> n \<notin> set boundaryNames"
  by (auto simp: entryPrefix_def boundaryNames_def BeginName_def EndName_def split: if_splits)

lemma globals_frame:
  assumes "createInitOrFiniGlobals Opts M GV IsCtor = Inr (Created, M1)"
  shows "\<exists>new. globalList M1 = globalList M @ new
           \<and> (\<forall>G \<in> set new. prefix (entryPrefix IsCtor) (gvName G))
           \<and> functionList M1 = functionList M \<and> sourceFileName M1 = sourceFileName M"
proof (cases Created)
  case False
  then have "M1 = M"
    using assms
    by (auto simp: createInitOrFiniGlobals_def split: option.splits Constant.splits if_splits
        sum.splits)
  then show ?thesis
    by simp
next
  case True
  then obtain GA where "createInitOrFiniGlobals_loop Opts IsCtor GA M = Inr M1"
    using assms
    by (auto simp: createInitOrFiniGlobals_def split: option.splits Constant.splits if_splits
        sum.splits)
  from globals_loop_result [OF this] obtain new where
    "globalList M1 = globalList M @ new" "list_all2 (entryOf Opts M IsCtor) GA new"
    "functionList M1 = functionList M" "sourceFileName M1 = sourceFileName M"
    by blast
  moreover have "\<forall>G \<in> set new. prefix (entryPrefix IsCtor) (gvName G)"
  proof
    fix G
    assume "G \<in> set new"
    then obtain i where "i < length new" "G = new ! i"
      by (auto simp: in_set_conv_nth)
    with \<open>list_all2 (entryOf Opts M IsCtor) GA new\<close>
    have "entryOf Opts M IsCtor (GA ! i) G"
      by (simp add: list_all2_nthD2)
    then show "prefix (entryPrefix IsCtor) (gvName G)"
      by (rule entryOf_prefix)
  qed
  ultimately show ?thesis
    by blast
qed

lemma globals_valid:
  assumes "gvInitializer GV = Some (ConstantArray GA)" and "GA \<noteq> []"
    and "list_all validRecord GA"
  shows "\<exists>M1 new. createInitOrFiniGlobals Opts M GV IsCtor = Inr (True, M1)
           \<and> globalList M1 = globalList M @ new \<and> list_all2 (entryOf Opts M IsCtor) GA new
           \<and> functionList M1 = functionList M \<and> sourceFileName M1 = sourceFileName M"
proof -
  from globals_loop_total [OF assms(3)] obtain M1 where
    loop: "createInitOrFiniGlobals_loop Opts IsCtor GA M = Inr M1"
    by blast
  then have "createInitOrFiniGlobals Opts M GV IsCtor = Inr (True, M1)"
    using assms(1,2) by (simp add: createInitOrFiniGlobals_def)
  with globals_loop_result [OF loop] show ?thesis
    by blast
qed

subsection \<open>The frame of one kind's processing\<close>

lemma find_map_other:
  assumes "\<And>x. P (f x) = P x" and "\<And>x. P x \<Longrightarrow> f x = x"
  shows "find P (map f xs) = find P xs"
  using assms by (induction xs) auto

lemma arrayPrefix_entryPrefix: "prefix (arrayPrefix IsCtor) (entryPrefix IsCtor)"
  by (simp add: arrayPrefix_def entryPrefix_def)

lemma arrayPrefix_boundary:
  "prefix (arrayPrefix IsCtor) (BeginName IsCtor)" "prefix (arrayPrefix IsCtor) (EndName IsCtor)"
  by (simp_all add: arrayPrefix_def BeginName_def EndName_def)

lemma getGlobalVariable_name:
  "getGlobalVariable M Name = Some GV \<Longrightarrow> gvName GV = Name"
  by (auto simp: getGlobalVariable_def getNamedGlobal_def find_Some_iff
      split: option.splits if_splits)

lemma getOrInsertGlobal_frame:
  assumes "getOrInsertGlobal M Name Created = (GV, M1)"
  shows "functionList M1 = functionList M"
    and "\<exists>new. globalList M1 = globalList M @ new
           \<and> (\<forall>G \<in> set new. prefix (gvName Created) (gvName G))"
proof -
  show "functionList M1 = functionList M"
  proof (cases "getNamedGlobal M Name")
    case None
    obtain N M0 where n: "newGlobalVariable M Created = (N, M0)"
      by (cases "newGlobalVariable M Created")
    then show ?thesis
      using assms None newGlobalVariable_frame(3) [OF n] by (simp add: getOrInsertGlobal_def)
  next
    case (Some a)
    then show ?thesis
      using assms by (simp add: getOrInsertGlobal_def)
  qed
  show "\<exists>new. globalList M1 = globalList M @ new
           \<and> (\<forall>G \<in> set new. prefix (gvName Created) (gvName G))"
  proof (cases "getNamedGlobal M Name")
    case None
    obtain N M0 where n: "newGlobalVariable M Created = (N, M0)"
      by (cases "newGlobalVariable M Created")
    then have "M1 = M0"
      using assms None by (simp add: getOrInsertGlobal_def)
    then have "globalList M1 = globalList M @ [Created\<lparr>gvName := N\<rparr>]"
      using newGlobalVariable_frame(2) [OF n] by simp
    moreover have "prefix (gvName Created) N"
      using newGlobalVariable_frame(1) [OF n] .
    ultimately show ?thesis
      by simp
  next
    case (Some a)
    then have "M1 = M"
      using assms by (simp add: getOrInsertGlobal_def)
    then show ?thesis
      by simp
  qed
qed

lemma calls_frame:
  assumes "createInitOrFiniCalls M F IsCtor = M'"
  shows "\<exists>new. globalList M' = globalList M @ new
           \<and> (\<forall>G \<in> set new. prefix (arrayPrefix IsCtor) (gvName G))"
    and "\<And>n. n \<noteq> F \<Longrightarrow> getFunction M' n = getFunction M n"
proof -
  obtain Begin M1 where b:
    "getOrInsertGlobal M (BeginName IsCtor) (boundaryGlobal (BeginName IsCtor)) = (Begin, M1)"
    by (cases "getOrInsertGlobal M (BeginName IsCtor) (boundaryGlobal (BeginName IsCtor))")
  obtain End M2 where e:
    "getOrInsertGlobal M1 (EndName IsCtor) (boundaryGlobal (EndName IsCtor)) = (End, M2)"
    by (cases "getOrInsertGlobal M1 (EndName IsCtor) (boundaryGlobal (EndName IsCtor))")
  let ?upd = "\<lambda>Fn. if fnName Fn = F
             then Fn\<lparr>fnBlocks := fnBlocks Fn @ initOrFiniBlocks IsCtor (fnAddressSpace Fn) Begin End\<rparr>
             else Fn"
  have M': "M' = M2\<lparr>functionList := map ?upd (functionList M2)\<rparr>"
    using assms by (simp add: createInitOrFiniCalls_def b e)
  from getOrInsertGlobal_frame(2) [OF b] obtain new1 where
    n1: "globalList M1 = globalList M @ new1"
    "\<forall>G \<in> set new1. prefix (gvName (boundaryGlobal (BeginName IsCtor))) (gvName G)"
    by blast
  from getOrInsertGlobal_frame(2) [OF e] obtain new2 where
    n2: "globalList M2 = globalList M1 @ new2"
    "\<forall>G \<in> set new2. prefix (gvName (boundaryGlobal (EndName IsCtor))) (gvName G)"
    by blast
  have names: "gvName (boundaryGlobal (BeginName IsCtor)) = BeginName IsCtor"
    "gvName (boundaryGlobal (EndName IsCtor)) = EndName IsCtor"
    by (simp_all add: boundaryGlobal_def)
  have "\<forall>G \<in> set (new1 @ new2). prefix (arrayPrefix IsCtor) (gvName G)"
    using n1(2) n2(2) arrayPrefix_boundary [of IsCtor] unfolding names
    by (auto intro: prefix_order.trans)
  moreover have "globalList M' = globalList M @ (new1 @ new2)"
    by (simp add: M' n1(1) n2(1))
  ultimately show "\<exists>new. globalList M' = globalList M @ new
           \<and> (\<forall>G \<in> set new. prefix (arrayPrefix IsCtor) (gvName G))"
    by blast
  fix n
  assume "n \<noteq> F"
  have fl: "functionList M2 = functionList M"
    using getOrInsertGlobal_frame(1) [OF b] getOrInsertGlobal_frame(1) [OF e] by simp
  have "find (\<lambda>Fn. fnName Fn = n) (map ?upd (functionList M2))
      = find (\<lambda>Fn. fnName Fn = n) (functionList M2)"
    using \<open>n \<noteq> F\<close> by (intro find_map_other) auto
  then show "getFunction M' n = getFunction M n"
    by (simp add: getFunction_def M' fl)
qed

lemma kernelFunction_frame:
  assumes "createInitOrFiniKernelFunction M IsCtor = Some (F, M2)"
  shows "prefix (InitOrFiniKernelName IsCtor) F" and "globalList M2 = globalList M"
    and "\<And>n. \<not> prefix (InitOrFiniKernelName IsCtor) n \<Longrightarrow> getFunction M2 n = getFunction M n"
proof -
  let ?Fn = "addKernelAttrs
        \<lparr>fnName = InitOrFiniKernelName IsCtor, fnType = FunctionTy VoidTy [],
         fnLinkage = WeakODRLinkage, fnAddressSpace = 0, fnAttrs = [],
         fnCallingConv = CallingConv_C, fnBlocks = []\<rparr>"
  from assms have n: "newFunction M ?Fn = (F, M2)"
    by (simp add: createInitOrFiniKernelFunction_def split: if_splits)
  have name: "fnName ?Fn = InitOrFiniKernelName IsCtor"
    by (simp add: addKernelAttrs_def)
  show pre: "prefix (InitOrFiniKernelName IsCtor) F"
    using newFunction_frame(1) [OF n] by (simp only: name)
  show "globalList M2 = globalList M"
    using newFunction_frame(3) [OF n] .
  fix n'
  assume "\<not> prefix (InitOrFiniKernelName IsCtor) n'"
  then have "n' \<noteq> F"
    using pre by auto
  then show "getFunction M2 n' = getFunction M n'"
    using newFunction_frame(2) [OF n] by (simp add: getFunction_def find_append_notin)
qed

lemma getNamedGlobal_append:
  assumes "globalList M1 = globalList M @ new"
    and "\<forall>G \<in> set new. prefix p (gvName G)" and "\<not> prefix p n"
  shows "getNamedGlobal M1 n = getNamedGlobal M n"
proof -
  have "\<forall>G \<in> set new. \<not> gvName G = n"
    using assms(2,3) by auto
  then show ?thesis
    by (simp add: getNamedGlobal_def assms(1) find_append_notin)
qed

lemma getNamedGlobal_erase:
  "getNamedGlobal (eraseFromParent M Name) Name = None"
  "n \<noteq> Name \<Longrightarrow> getNamedGlobal (eraseFromParent M Name) n = getNamedGlobal M n"
  by (simp_all add: getNamedGlobal_def eraseFromParent_def find_filter_none find_filter_other)

lemma getFunction_erase: "getFunction (eraseFromParent M Name) n = getFunction M n"
  by (simp add: getFunction_def eraseFromParent_def)

lemma kernel_paths:
  assumes "createInitOrFiniKernel Opts M GlobalName IsCtor = Inr (Modified, M')"
  shows "M' = M
     \<or> (\<exists>GV Created M1. getGlobalVariable M GlobalName = Some GV
          \<and> createInitOrFiniGlobals Opts M GV IsCtor = Inr (Created, M1)
          \<and> (M' = M1
             \<or> (\<exists>F M2. createInitOrFiniKernelFunction M1 IsCtor = Some (F, M2)
                  \<and> M' = eraseFromParent (createInitOrFiniCalls M2 F IsCtor) GlobalName)))"
proof (cases "getGlobalVariable M GlobalName")
  case None
  then show ?thesis
    using assms by (simp add: createInitOrFiniKernel_def)
next
  case (Some GV)
  note name = getGlobalVariable_name [OF Some]
  show ?thesis
  proof (cases "hasInitializer GV")
    case False
    then show ?thesis
      using assms Some by (simp add: createInitOrFiniKernel_def)
  next
    case True
    from assms Some True obtain Created M1 where
      g: "createInitOrFiniGlobals Opts M GV IsCtor = Inr (Created, M1)"
      by (auto simp: createInitOrFiniKernel_def split: sum.splits)
    show ?thesis
    proof (cases "createInitOrFiniKernelFunction M1 IsCtor")
      case None
      then have "M' = M1"
        using assms Some True g by (auto simp: createInitOrFiniKernel_def split: if_splits)
      then show ?thesis
        using Some g by blast
    next
      case (Some FM)
      obtain F M2 where FM: "FM = (F, M2)"
        by (cases FM)
      have "M' = M1 \<or> M' = eraseFromParent (createInitOrFiniCalls M2 F IsCtor) GlobalName"
        using assms \<open>getGlobalVariable M GlobalName = Some GV\<close> True g Some FM name
        by (auto simp: createInitOrFiniKernel_def split: if_splits)
      then show ?thesis
        using \<open>getGlobalVariable M GlobalName = Some GV\<close> g Some FM by blast
    qed
  qed
qed

lemma kernel_frame:
  assumes "createInitOrFiniKernel Opts M GlobalName IsCtor = Inr (Modified, M')"
  shows "\<And>n. n \<noteq> GlobalName \<Longrightarrow> \<not> prefix (arrayPrefix IsCtor) n
           \<Longrightarrow> getNamedGlobal M' n = getNamedGlobal M n"
    and "\<And>n. \<not> prefix (InitOrFiniKernelName IsCtor) n \<Longrightarrow> getFunction M' n = getFunction M n"
proof -
  fix n
  {
    fix GV Created M1
    assume g: "createInitOrFiniGlobals Opts M GV IsCtor = Inr (Created, M1)"
    from globals_frame [OF g] obtain new where
      gl: "globalList M1 = globalList M @ new"
      and pre: "\<forall>G \<in> set new. prefix (entryPrefix IsCtor) (gvName G)"
      and fl: "functionList M1 = functionList M"
      by blast
    have pre': "\<forall>G \<in> set new. prefix (arrayPrefix IsCtor) (gvName G)"
      using pre arrayPrefix_entryPrefix [of IsCtor] by (auto intro: prefix_order.trans)
    have 1: "\<not> prefix (arrayPrefix IsCtor) n \<Longrightarrow> getNamedGlobal M1 n = getNamedGlobal M n"
      using getNamedGlobal_append [OF gl pre'] .
    have 2: "getFunction M1 n = getFunction M n"
      by (simp add: getFunction_def fl)
    {
      fix F M2
      assume k: "createInitOrFiniKernelFunction M1 IsCtor = Some (F, M2)"
      let ?M3 = "createInitOrFiniCalls M2 F IsCtor"
      from calls_frame(1) [OF refl, of M2 F IsCtor] obtain new3 where
        gl3: "globalList ?M3 = globalList M2 @ new3"
        and pre3: "\<forall>G \<in> set new3. prefix (arrayPrefix IsCtor) (gvName G)"
        by blast
      have g2: "getNamedGlobal M2 n = getNamedGlobal M1 n"
        by (simp add: getNamedGlobal_def kernelFunction_frame(2) [OF k])
      have 3: "n \<noteq> GlobalName \<Longrightarrow> \<not> prefix (arrayPrefix IsCtor) n \<Longrightarrow>
          getNamedGlobal (eraseFromParent ?M3 GlobalName) n = getNamedGlobal M n"
        using getNamedGlobal_append [OF gl3 pre3] g2 1 by (simp add: getNamedGlobal_erase)
      have "\<not> prefix (InitOrFiniKernelName IsCtor) n \<Longrightarrow> n \<noteq> F"
        using kernelFunction_frame(1) [OF k] by auto
      then have 4: "\<not> prefix (InitOrFiniKernelName IsCtor) n \<Longrightarrow>
          getFunction (eraseFromParent ?M3 GlobalName) n = getFunction M n"
        using calls_frame(2) [OF refl, of n F M2 IsCtor] kernelFunction_frame(3) [OF k, of n] 2
        by (simp add: getFunction_erase)
      note 3 4
    }
    note 1 2 this
  }
  note steps = this
  from kernel_paths [OF assms]
  show "n \<noteq> GlobalName \<Longrightarrow> \<not> prefix (arrayPrefix IsCtor) n
           \<Longrightarrow> getNamedGlobal M' n = getNamedGlobal M n"
    using steps(1,3) by (elim disjE exE conjE) auto
  from kernel_paths [OF assms]
  show "\<not> prefix (InitOrFiniKernelName IsCtor) n \<Longrightarrow> getFunction M' n = getFunction M n"
    using steps(2,4) by (elim disjE exE conjE) auto
qed

lemma validArray_cases:
  assumes "validArray M GlobalName"
  obtains GV GA where "getGlobalVariable M GlobalName = Some GV"
    "gvInitializer GV = Some (ConstantArray GA)" "GA \<noteq> []" "list_all validRecord GA"
proof -
  from assms obtain GV where GV: "getGlobalVariable M GlobalName = Some GV"
    by (cases "getGlobalVariable M GlobalName") (simp_all add: validArray_def)
  from assms GV obtain C where C: "gvInitializer GV = Some C"
    by (cases "gvInitializer GV") (simp_all add: validArray_def)
  from assms GV C obtain GA where GA: "C = ConstantArray GA"
    by (cases C) (simp_all add: validArray_def)
  from assms GV C GA have "GA \<noteq> []" "list_all validRecord GA"
    by (simp_all add: validArray_def)
  with GV C GA show ?thesis
    by (auto intro: that)
qed

lemma getGlobalVariable_cong:
  "getNamedGlobal M1 n = getNamedGlobal M n \<Longrightarrow> getGlobalVariable M1 n = getGlobalVariable M n"
  by (simp add: getGlobalVariable_def)

lemma validArray_cong:
  "getGlobalVariable M1 n = getGlobalVariable M n \<Longrightarrow> validArray M1 n = validArray M n"
  by (simp add: validArray_def)

lemma kernel_created:
  assumes "CreateKernels Opts" and "validArray M GlobalName"
    and "getFunction M (InitOrFiniKernelName IsCtor) = None"
  shows "\<exists>M'. createInitOrFiniKernel Opts M GlobalName IsCtor = Inr (True, M')
           \<and> getGlobalVariable M' GlobalName = None"
proof -
  from assms(2) obtain GV GA where GV: "getGlobalVariable M GlobalName = Some GV"
    and init: "gvInitializer GV = Some (ConstantArray GA)"
    and ne: "GA \<noteq> []" and valid: "list_all validRecord GA"
    by (rule validArray_cases)
  from globals_valid [OF init ne valid] obtain M1 where
    g: "createInitOrFiniGlobals Opts M GV IsCtor = Inr (True, M1)"
    and fl: "functionList M1 = functionList M"
    by blast
  have "getFunction M1 (InitOrFiniKernelName IsCtor) = None"
    using assms(3) by (simp add: getFunction_def fl)
  then obtain F M2 where k: "createInitOrFiniKernelFunction M1 IsCtor = Some (F, M2)"
    by (cases "newFunction M1 (addKernelAttrs
        \<lparr>fnName = InitOrFiniKernelName IsCtor, fnType = FunctionTy VoidTy [],
         fnLinkage = WeakODRLinkage, fnAddressSpace = 0, fnAttrs = [],
         fnCallingConv = CallingConv_C, fnBlocks = []\<rparr>)")
      (simp add: createInitOrFiniKernelFunction_def)
  let ?M' = "eraseFromParent (createInitOrFiniCalls M2 F IsCtor) GlobalName"
  have "createInitOrFiniKernel Opts M GlobalName IsCtor = Inr (True, ?M')"
    using GV init g k assms(1) getGlobalVariable_name [OF GV]
    by (simp add: createInitOrFiniKernel_def hasInitializer_def)
  moreover have "getGlobalVariable ?M' GlobalName = None"
    by (simp add: getGlobalVariable_def getNamedGlobal_erase)
  ultimately show ?thesis
    by blast
qed

lemma kind_step:
  assumes "CreateKernels Opts"
    and "getGlobalVariable M GlobalName = None
       \<or> validArray M GlobalName \<and> getFunction M (InitOrFiniKernelName IsCtor) = None"
  shows "\<exists>Modified M1. createInitOrFiniKernel Opts M GlobalName IsCtor = Inr (Modified, M1)
           \<and> getGlobalVariable M1 GlobalName = None"
  using assms(2)
proof
  assume none: "getGlobalVariable M GlobalName = None"
  then have "createInitOrFiniKernel Opts M GlobalName IsCtor = Inr (False, M)"
    by (simp add: createInitOrFiniKernel_def)
  with none show ?thesis
    by auto
next
  assume "validArray M GlobalName \<and> getFunction M (InitOrFiniKernelName IsCtor) = None"
  then have "validArray M GlobalName" "getFunction M (InitOrFiniKernelName IsCtor) = None"
    by simp_all
  from kernel_created [OF assms(1) this] obtain M' where
    "createInitOrFiniKernel Opts M GlobalName IsCtor = Inr (True, M')"
    "getGlobalVariable M' GlobalName = None"
    by auto
  then show ?thesis
    by auto
qed

subsection \<open>Distinct names for distinct records\<close>

text \<open>
  Claim C7, as stated, fails: the namer replaces every \<open>.\<close> by \<open>_\<close>, so the two
  different functions \<^verbatim>\<open>a.b\<close> and \<^verbatim>\<open>a_b\<close> with the same priority get the same name.
\<close>

theorem entry_names_collide:
  "getName (GlobalRef ''a.b'' 0) \<noteq> getName (GlobalRef ''a_b'' 0)
   \<and> getSExtValue 0 = Inr 0
   \<and> NameStr True (getName (GlobalRef ''a.b'' 0)) ''id'' 0
        = NameStr True (getName (GlobalRef ''a_b'' 0)) ''id'' 0"
  by (simp add: getSExtValue_def NameStr_eq_iff replaceDots_def)

text \<open>
  Claim C7, amended. For two records of one kind in one module (so with the same
  identifier), the names the namer produces are distinct whenever the priorities
  differ or the names of the target functions still differ after every \<open>.\<close> in them
  is replaced by \<open>_\<close>.
\<close>

theorem entry_names_distinct:
  assumes "getSExtValue v1 = Inr P1" and "getSExtValue v2 = Inr P2"
    and "replaceDots (getName F1) \<noteq> replaceDots (getName F2) \<or> v1 \<noteq> v2"
  shows "NameStr IsCtor (getName F1) ID P1 \<noteq> NameStr IsCtor (getName F2) ID P2"
proof -
  have "P1 = P2 \<Longrightarrow> v1 = v2"
    using getSExtValue_Inr(2) [OF assms(1)] getSExtValue_Inr(2) [OF assms(2)] by simp
  with assms(3) show ?thesis
    by (auto simp: NameStr_eq_iff)
qed

theorem entry_names_distinct_witness:
  "getSExtValue 1 = Inr 1 \<and> getSExtValue 2 = Inr 2 \<and> (1 :: int) \<noteq> 2
   \<and> NameStr True (getName (GlobalRef ''foo'' 0)) ''id'' 1
        \<noteq> NameStr True (getName (GlobalRef ''foo'' 0)) ''id'' 2"
proof -
  have a: "getSExtValue 1 = Inr 1" and b: "getSExtValue 2 = Inr 2"
    by (simp_all add: getSExtValue_def)
  have c: "replaceDots (getName (GlobalRef ''foo'' 0)) \<noteq> replaceDots (getName (GlobalRef ''foo'' 0))
        \<or> (1 :: int) \<noteq> 2"
    by simp
  from a b entry_names_distinct [OF a b c, of True "''id''"] show ?thesis
    by simp
qed

subsection \<open>Negative priorities\<close>

lemma NameStr_split:
  "NameStr IsCtor FName ID Priority =
     replaceDots (entryPrefix IsCtor @ FName @ ''_'' @ ID @ ''_'') @ dec (unat Priority)"
  by (simp add: NameStr_def entryPrefix_def replaceDots_append replaceDots_Cons replaceDots_dec
      to_string_def)

lemma getSExtValue_minus_one: "getSExtValue (- 1) = Inr (- 1)"
  by (simp add: getSExtValue_def)

lemma unat_minus_one_64: "unat (- 1 :: 64 word) = 18446744073709551615"
proof -
  have "unat (word_of_int (- 1) :: 64 word) = nat (2 ^ 64 + (- 1))"
    by (rule unat_negative) simp_all
  then show ?thesis
    by simp
qed

lemma dec_max: "dec 18446744073709551615 = ''18446744073709551615''"
  by (simp add: dec.simps digit_char_values)

lemma to_string_minus_one: "to_string (- 1) = ''18446744073709551615''"
  by (simp add: to_string_def unat_minus_one_64 dec_max)

lemma NameStr_minus_one:
  "NameStr True ''foo'' ''id'' (- 1) = ''__init_array_object_foo_id_18446744073709551615''"
  by (simp add: NameStr_def to_string_minus_one replaceDots_def)

lemma loop_minus_one:
  "createInitOrFiniGlobals_loop (exampleOptions True) True [ctorRecord (- 1) ''foo'']
      (exampleModule [] []) = Inr minusOneLowered"
  by (simp add: ctorRecord_def exampleOptions_def exampleModule_def getSExtValue_minus_one
      newGlobalVariable_def makeUniqueName_def valueNames_def entryGlobal_def NameStr_minus_one
      GlobalID_def to_string_minus_one PriorityStr_def appendToUsed_def minusOneLowered_def)

text \<open>
  Claim C10. For the record at any position of the array whose priority \<open>v\<close> is
  negative, the loop takes the priority sign-extended to 64 bits (\<open>sint Priority = v\<close>)
  and renders it as the unsigned number \<open>2 ^ 64 + v\<close>, in decimal and with no minus
  sign, at the end of the name the namer gives the entry-global (the symbol table may
  append a number to it) and after \<^verbatim>\<open>.init_array.\<close> or \<^verbatim>\<open>.fini_array.\<close> in its
  section. For priority -1 that is 18446744073709551615.
\<close>

theorem negative_priority_rendered_unsigned:
  assumes "createInitOrFiniGlobals_loop Opts IsCtor GA M = Inr M'"
    and "i < length GA"
    and "GA ! i = ConstantStruct (ConstantInt w v # F # rest)"
    and "v < 0"
  shows "\<exists>Priority. getSExtValue v = Inr Priority \<and> sint Priority = v
      \<and> unat Priority = nat (2 ^ 64 + v)
      \<and> prefix (replaceDots (entryPrefix IsCtor @ getName F @ ''_'' @ GlobalID Opts M @ ''_'')
                  @ dec (nat (2 ^ 64 + v)))
           (gvName (globalList M' ! (length (globalList M) + i)))
      \<and> gvSection (globalList M' ! (length (globalList M) + i))
          = (if IsCtor then ''.init_array.'' else ''.fini_array.'') @ dec (nat (2 ^ 64 + v))
      \<and> CHR ''-'' \<notin> set (dec (nat (2 ^ 64 + v)))"
proof -
  from globals_loop_result [OF assms(1)] obtain new where
    gl: "globalList M' = globalList M @ new"
    and all: "list_all2 (entryOf Opts M IsCtor) GA new"
    by blast
  have len: "length new = length GA"
    using all by (simp add: list_all2_lengthD)
  let ?G = "globalList M' ! (length (globalList M) + i)"
  have G: "?G = new ! i"
    by (simp add: gl)
  have "entryOf Opts M IsCtor (GA ! i) (new ! i)"
    using all assms(2) by (rule list_all2_nthD)
  then obtain Priority where P: "getSExtValue v = Inr Priority"
    and pre: "prefix (gvName (entryGlobal Opts M IsCtor F Priority)) (gvName (new ! i))"
    and eq: "new ! i = (entryGlobal Opts M IsCtor F Priority)\<lparr>gvName := gvName (new ! i)\<rparr>"
    by (auto simp: entryOf_def assms(3) split: sum.splits)
  have range: "- (2 ^ 63) \<le> v"
    using P by (auto simp: getSExtValue_def split: if_splits)
  have un: "unat Priority = nat (2 ^ 64 + v)"
    using getSExtValue_Inr(1) [OF P] unat_negative [OF range assms(4)] by simp
  have sec: "gvSection (new ! i) = gvSection (entryGlobal Opts M IsCtor F Priority)"
    by (subst eq) simp
  have "gvSection (new ! i)
      = (if IsCtor then ''.init_array.'' else ''.fini_array.'') @ dec (nat (2 ^ 64 + v))"
    by (simp add: sec entryGlobal_def PriorityStr_def to_string_def un)
  moreover have "prefix (replaceDots (entryPrefix IsCtor @ getName F @ ''_'' @ GlobalID Opts M @ ''_'')
                  @ dec (nat (2 ^ 64 + v))) (gvName (new ! i))"
    using pre by (simp add: entryGlobal_def NameStr_split un)
  ultimately show ?thesis
    using P getSExtValue_Inr(2) [OF P] un dec_no_separator(3) by (simp add: G)
qed

theorem negative_priority_rendered_unsigned_witness:
  "createInitOrFiniGlobals_loop (exampleOptions True) True [ctorRecord (- 1) ''foo'']
      (exampleModule [] []) = Inr minusOneLowered
   \<and> (0 :: nat) < length [ctorRecord (- 1) ''foo'']
   \<and> [ctorRecord (- 1) ''foo''] ! 0
       = ConstantStruct (ConstantInt 32 (- 1) # GlobalRef ''foo'' 0 # [ConstantPointerNull 0])
   \<and> (- 1 :: int) < 0
   \<and> (\<exists>Priority. getSExtValue (- 1) = Inr Priority \<and> sint Priority = - 1
      \<and> unat Priority = nat (2 ^ 64 + - 1)
      \<and> prefix (replaceDots (entryPrefix True @ getName (GlobalRef ''foo'' 0) @ ''_''
                    @ GlobalID (exampleOptions True) (exampleModule [] []) @ ''_'')
                  @ dec (nat (2 ^ 64 + - 1)))
           (gvName (globalList minusOneLowered ! (length (globalList (exampleModule [] [])) + 0)))
      \<and> gvSection (globalList minusOneLowered ! (length (globalList (exampleModule [] [])) + 0))
          = (if True then ''.init_array.'' else ''.fini_array.'') @ dec (nat (2 ^ 64 + - 1))
      \<and> CHR ''-'' \<notin> set (dec (nat (2 ^ 64 + - 1))))
   \<and> dec (nat (2 ^ 64 + - 1)) = ''18446744073709551615''
   \<and> map gvName (globalList minusOneLowered) = [''__init_array_object_foo_id_18446744073709551615'']
   \<and> map gvSection (globalList minusOneLowered) = [''.init_array.18446744073709551615'']"
proof -
  have h2: "(0 :: nat) < length [ctorRecord (- 1) ''foo'']"
    by simp
  have h3: "[ctorRecord (- 1) ''foo''] ! 0
       = ConstantStruct (ConstantInt 32 (- 1) # GlobalRef ''foo'' 0 # [ConstantPointerNull 0])"
    by (simp add: ctorRecord_def)
  have h4: "(- 1 :: int) < 0"
    by simp
  have d: "dec (nat (2 ^ 64 + - 1)) = ''18446744073709551615''"
    using dec_max by simp
  have names: "map gvName (globalList minusOneLowered)
      = [''__init_array_object_foo_id_18446744073709551615'']"
    and sections: "map gvSection (globalList minusOneLowered) = [''.init_array.18446744073709551615'']"
    by (simp_all add: minusOneLowered_def exampleModule_def)
  from negative_priority_rendered_unsigned [OF loop_minus_one h2 h3 h4]
    loop_minus_one h2 h3 h4 d names sections
  show ?thesis
    by blast
qed

subsection \<open>Kernel emission switched off\<close>

lemma kernels_off_run:
  "createInitOrFiniKernel (exampleOptions False) (fooModule []) ''llvm.global_ctors'' True
     = Inr (True, fooModuleWithEntry [])"
  by code_simp

text \<open>
  Claim C2, as stated, fails: with the toggle off the function returns right after the
  materializer, before \<^verbatim>\<open>GV->eraseFromParent()\<close>, so the metadata array is still in
  the module.
\<close>

theorem kernels_off_array_not_deleted:
  "\<not> CreateKernels (exampleOptions False)
   \<and> getGlobalVariable (fooModule []) ''llvm.global_ctors'' = Some ctorsOfFoo
   \<and> gvInitializer ctorsOfFoo = Some (ConstantArray [ctorRecord 1 ''foo''])
   \<and> createInitOrFiniKernel (exampleOptions False) (fooModule []) ''llvm.global_ctors'' True
       = Inr (True, fooModuleWithEntry [])
   \<and> getGlobalVariable (fooModuleWithEntry []) ''llvm.global_ctors'' = Some ctorsOfFoo"
proof -
  have "\<not> CreateKernels (exampleOptions False)"
    by (simp add: exampleOptions_def)
  moreover have "getGlobalVariable (fooModule []) ''llvm.global_ctors'' = Some ctorsOfFoo"
    by code_simp
  moreover have "gvInitializer ctorsOfFoo = Some (ConstantArray [ctorRecord 1 ''foo''])"
    by (simp add: ctorsOfFoo_def arrayGlobal_def)
  moreover have "getGlobalVariable (fooModuleWithEntry []) ''llvm.global_ctors'' = Some ctorsOfFoo"
    by code_simp
  ultimately show ?thesis
    using kernels_off_run by simp
qed

text \<open>
  Claim C2, amended. For a module with a valid non-empty metadata array of a kind,
  when the kernel-emission toggle is off, the pass reports the module as modified,
  appends one entry-global per record, in the order of the records, each a constant
  holding the target of its record, creates no function, and leaves the original
  metadata array in the module.
\<close>

theorem kernels_off_keeps_array:
  assumes "getGlobalVariable M GlobalName = Some GV"
    and "gvInitializer GV = Some (ConstantArray GA)" and "GA \<noteq> []"
    and "list_all validRecord GA"
    and "\<not> CreateKernels Opts"
  shows "\<exists>M' new. createInitOrFiniKernel Opts M GlobalName IsCtor = Inr (True, M')
           \<and> globalList M' = globalList M @ new
           \<and> list_all2 (entryOf Opts M IsCtor) GA new
           \<and> map gvInitializer new = map recordTarget GA
           \<and> functionList M' = functionList M
           \<and> getGlobalVariable M' GlobalName = Some GV"
proof -
  from globals_valid [OF assms(2,3,4)] obtain M1 new where
    g: "createInitOrFiniGlobals Opts M GV IsCtor = Inr (True, M1)"
    and gl: "globalList M1 = globalList M @ new"
    and all: "list_all2 (entryOf Opts M IsCtor) GA new"
    and fl: "functionList M1 = functionList M"
    by blast
  have "createInitOrFiniKernel Opts M GlobalName IsCtor = Inr (True, M1)"
    using assms(1,2,5) g by (simp add: createInitOrFiniKernel_def hasInitializer_def)
  moreover have "map gvInitializer new = map recordTarget GA"
  proof (rule nth_equalityI)
    show "length (map gvInitializer new) = length (map recordTarget GA)"
      using all by (simp add: list_all2_lengthD)
  next
    fix i
    assume "i < length (map gvInitializer new)"
    then have i: "i < length new"
      by simp
    with all have "entryOf Opts M IsCtor (GA ! i) (new ! i)"
      by (simp add: list_all2_nthD2)
    then have "gvInitializer (new ! i) = recordTarget (GA ! i)"
      by (rule entryOf_target(1))
    then show "map gvInitializer new ! i = map recordTarget GA ! i"
      using i all by (simp add: list_all2_lengthD)
  qed
  moreover have "getGlobalVariable M1 GlobalName = Some GV"
    using assms(1)
    by (auto simp: getGlobalVariable_def getNamedGlobal_def gl find_append_eq
        split: option.splits if_splits)
  ultimately show ?thesis
    using gl all fl by blast
qed

theorem kernels_off_keeps_array_witness:
  "getGlobalVariable (fooModule []) ''llvm.global_ctors'' = Some ctorsOfFoo
   \<and> gvInitializer ctorsOfFoo = Some (ConstantArray [ctorRecord 1 ''foo''])
   \<and> [ctorRecord 1 ''foo''] \<noteq> []
   \<and> list_all validRecord [ctorRecord 1 ''foo'']
   \<and> \<not> CreateKernels (exampleOptions False)
   \<and> (\<exists>M' new. createInitOrFiniKernel (exampleOptions False) (fooModule [])
             ''llvm.global_ctors'' True = Inr (True, M')
           \<and> globalList M' = globalList (fooModule []) @ new
           \<and> list_all2 (entryOf (exampleOptions False) (fooModule []) True)
                [ctorRecord 1 ''foo''] new
           \<and> map gvInitializer new = map recordTarget [ctorRecord 1 ''foo'']
           \<and> functionList M' = functionList (fooModule [])
           \<and> getGlobalVariable M' ''llvm.global_ctors'' = Some ctorsOfFoo)"
proof -
  have h1: "getGlobalVariable (fooModule []) ''llvm.global_ctors'' = Some ctorsOfFoo"
    by code_simp
  have h2: "gvInitializer ctorsOfFoo = Some (ConstantArray [ctorRecord 1 ''foo''])"
    by (simp add: ctorsOfFoo_def arrayGlobal_def)
  have h3: "[ctorRecord 1 ''foo''] \<noteq> []"
    by simp
  have h4: "list_all validRecord [ctorRecord 1 ''foo'']"
    by code_simp
  have h5: "\<not> CreateKernels (exampleOptions False)"
    by (simp add: exampleOptions_def)
  from h1 h2 h3 h4 h5 kernels_off_keeps_array [OF h1 h2 h3 h4 h5, of True] show ?thesis
    by blast
qed

subsection \<open>An entry point that already exists\<close>

lemma kernel_exists_run:
  "createInitOrFiniKernel (exampleOptions True) (fooModule [declaredFunction ''nvptx$device$init''])
       ''llvm.global_ctors'' True
     = Inr (False, fooModuleWithEntry [declaredFunction ''nvptx$device$init''])"
  by code_simp

text \<open>
  Claim C1 does not hold of the code. For a module that already has a function
  \<^verbatim>\<open>nvptx$device$init\<close> and a valid array of one constructor, the pass keeps the array
  and reports \<open>False\<close>, but the module it leaves is not the one it found: the
  materializer has run before the name is looked up, and its entry-global and the
  entry in the used list stay.
\<close>

theorem existing_kernel_leaves_entries:
  "getFunction (fooModule [declaredFunction ''nvptx$device$init'']) (InitOrFiniKernelName True)
     = Some (declaredFunction ''nvptx$device$init'')
   \<and> createInitOrFiniKernel (exampleOptions True)
         (fooModule [declaredFunction ''nvptx$device$init'']) ''llvm.global_ctors'' True
       = Inr (False, fooModuleWithEntry [declaredFunction ''nvptx$device$init''])
   \<and> globalList (fooModuleWithEntry [declaredFunction ''nvptx$device$init''])
       = globalList (fooModule [declaredFunction ''nvptx$device$init'']) @ [fooEntry]
   \<and> usedList (fooModule [declaredFunction ''nvptx$device$init'']) = []
   \<and> usedList (fooModuleWithEntry [declaredFunction ''nvptx$device$init''])
       = [''__init_array_object_foo_id_1'']
   \<and> fooModuleWithEntry [declaredFunction ''nvptx$device$init'']
       \<noteq> fooModule [declaredFunction ''nvptx$device$init'']"
proof -
  have "getFunction (fooModule [declaredFunction ''nvptx$device$init'']) (InitOrFiniKernelName True)
     = Some (declaredFunction ''nvptx$device$init'')"
    by code_simp
  moreover have "globalList (fooModuleWithEntry [declaredFunction ''nvptx$device$init''])
       = globalList (fooModule [declaredFunction ''nvptx$device$init'']) @ [fooEntry]"
    and "usedList (fooModule [declaredFunction ''nvptx$device$init'']) = []"
    and "usedList (fooModuleWithEntry [declaredFunction ''nvptx$device$init''])
       = [''__init_array_object_foo_id_1'']"
    by (simp_all add: fooModuleWithEntry_def fooModule_def exampleModule_def)
  moreover have "fooModuleWithEntry [declaredFunction ''nvptx$device$init'']
       \<noteq> fooModule [declaredFunction ''nvptx$device$init'']"
    by code_simp
  ultimately show ?thesis
    using kernel_exists_run by simp
qed

text \<open>
  The same for every module: with a valid array and the entry point already there, the
  entry-globals are appended and the result is \<open>False\<close>.
\<close>

lemma existing_kernel_general:
  assumes "validArray M GlobalName" and "CreateKernels Opts"
    and "getFunction M (InitOrFiniKernelName IsCtor) \<noteq> None"
  shows "\<exists>M' new. createInitOrFiniKernel Opts M GlobalName IsCtor = Inr (False, M')
           \<and> globalList M' = globalList M @ new \<and> new \<noteq> []"
proof -
  from assms(1) obtain GV GA where GV: "getGlobalVariable M GlobalName = Some GV"
    and init: "gvInitializer GV = Some (ConstantArray GA)"
    and ne: "GA \<noteq> []" and valid: "list_all validRecord GA"
    by (rule validArray_cases)
  from globals_valid [OF init ne valid] obtain M1 new where
    g: "createInitOrFiniGlobals Opts M GV IsCtor = Inr (True, M1)"
    and gl: "globalList M1 = globalList M @ new"
    and all: "list_all2 (entryOf Opts M IsCtor) GA new"
    and fl: "functionList M1 = functionList M"
    by blast
  have "getFunction M1 (InitOrFiniKernelName IsCtor) \<noteq> None"
    using assms(3) by (simp add: getFunction_def fl)
  then have "createInitOrFiniKernel Opts M GlobalName IsCtor = Inr (False, M1)"
    using GV init g assms(2)
    by (simp add: createInitOrFiniKernel_def hasInitializer_def createInitOrFiniKernelFunction_def)
  moreover have "new \<noteq> []"
    using all ne by auto
  ultimately show ?thesis
    using gl by blast
qed

subsection \<open>Boundary symbols\<close>

text \<open>
  Claim C9. When kernel emission is disabled, or the entry-point function of the kind
  already exists, or the materializer reports failure, processing the kind leaves the
  variables named \<^verbatim>\<open>__init_array_start\<close>, \<^verbatim>\<open>__init_array_end\<close>,
  \<^verbatim>\<open>__fini_array_start\<close> and \<^verbatim>\<open>__fini_array_end\<close> exactly as they were (none is
  created), and the functions too.
\<close>

theorem boundary_symbols_only_with_kernel:
  assumes "createInitOrFiniKernel Opts M GlobalName IsCtor = Inr (Modified, M')"
    and "\<not> CreateKernels Opts
       \<or> getFunction M (InitOrFiniKernelName IsCtor) \<noteq> None
       \<or> (\<forall>GV. getGlobalVariable M GlobalName = Some GV \<longrightarrow> hasInitializer GV \<longrightarrow>
            (\<exists>M1. createInitOrFiniGlobals Opts M GV IsCtor = Inr (False, M1)))"
  shows "filter (\<lambda>G. gvName G \<in> set boundaryNames) (globalList M')
          = filter (\<lambda>G. gvName G \<in> set boundaryNames) (globalList M)
       \<and> functionList M' = functionList M"
proof (cases "getGlobalVariable M GlobalName")
  case None
  then show ?thesis
    using assms(1) by (simp add: createInitOrFiniKernel_def)
next
  case (Some GV)
  show ?thesis
  proof (cases "hasInitializer GV")
    case False
    then show ?thesis
      using assms(1) Some by (simp add: createInitOrFiniKernel_def)
  next
    case True
    from assms(1) Some True obtain Created M1 where
      g: "createInitOrFiniGlobals Opts M GV IsCtor = Inr (Created, M1)"
      by (auto simp: createInitOrFiniKernel_def split: sum.splits)
    from globals_frame [OF g] obtain new where
      gl: "globalList M1 = globalList M @ new"
      and pre: "\<forall>G \<in> set new. prefix (entryPrefix IsCtor) (gvName G)"
      and fl: "functionList M1 = functionList M"
      by blast
    have none: "filter (\<lambda>G. gvName G \<in> set boundaryNames) new = []"
      using pre entryPrefix_not_boundary by (auto simp: filter_empty_conv)
    have "getFunction M1 (InitOrFiniKernelName IsCtor) = getFunction M (InitOrFiniKernelName IsCtor)"
      by (simp add: getFunction_def fl)
    then have "M' = M1"
      using assms Some True g
      by (auto simp: createInitOrFiniKernel_def createInitOrFiniKernelFunction_def
          split: if_splits)
    then show ?thesis
      using gl fl none by simp
  qed
qed

theorem boundary_symbols_only_with_kernel_witness:
  "createInitOrFiniKernel (exampleOptions True)
         (fooModule [declaredFunction ''nvptx$device$init'']) ''llvm.global_ctors'' True
       = Inr (False, fooModuleWithEntry [declaredFunction ''nvptx$device$init''])
   \<and> getFunction (fooModule [declaredFunction ''nvptx$device$init''])
         (InitOrFiniKernelName True) \<noteq> None
   \<and> filter (\<lambda>G. gvName G \<in> set boundaryNames)
         (globalList (fooModuleWithEntry [declaredFunction ''nvptx$device$init'']))
       = filter (\<lambda>G. gvName G \<in> set boundaryNames)
         (globalList (fooModule [declaredFunction ''nvptx$device$init'']))
   \<and> functionList (fooModuleWithEntry [declaredFunction ''nvptx$device$init''])
       = functionList (fooModule [declaredFunction ''nvptx$device$init''])"
proof -
  have h: "getFunction (fooModule [declaredFunction ''nvptx$device$init''])
         (InitOrFiniKernelName True) \<noteq> None"
    by code_simp
  from kernel_exists_run h
    boundary_symbols_only_with_kernel [OF kernel_exists_run disjI2 [OF disjI1 [OF h]]]
  show ?thesis
    by blast
qed

subsection \<open>Running the pass twice\<close>

text \<open>
  Claim C6. Let kernel emission be on and let each kind be either absent or fully
  lowerable (a valid non-empty array and no function of the entry point's name yet).
  Then the first run succeeds and leaves neither metadata array in the module, and a
  second run, under any options, returns that module unchanged and reports \<open>False\<close>.
\<close>

theorem second_run_is_noop:
  assumes "CreateKernels Opts"
    and "getGlobalVariable M ''llvm.global_ctors'' = None
       \<or> validArray M ''llvm.global_ctors'' \<and> getFunction M (InitOrFiniKernelName True) = None"
    and "getGlobalVariable M ''llvm.global_dtors'' = None
       \<or> validArray M ''llvm.global_dtors'' \<and> getFunction M (InitOrFiniKernelName False) = None"
  shows "\<exists>Modified M2. lowerCtorsAndDtors Opts M = Inr (Modified, M2)
           \<and> getGlobalVariable M2 ''llvm.global_ctors'' = None
           \<and> getGlobalVariable M2 ''llvm.global_dtors'' = None
           \<and> lowerCtorsAndDtors Opts' M2 = Inr (False, M2)"
proof -
  from kind_step [OF assms(1,2)] obtain r1 M1 where
    run1: "createInitOrFiniKernel Opts M ''llvm.global_ctors'' True = Inr (r1, M1)"
    and abs1: "getGlobalVariable M1 ''llvm.global_ctors'' = None"
    by blast
  have "getNamedGlobal M1 ''llvm.global_dtors'' = getNamedGlobal M ''llvm.global_dtors''"
    by (rule kernel_frame(1) [OF run1]) (simp_all add: arrayPrefix_def)
  then have gv: "getGlobalVariable M1 ''llvm.global_dtors'' = getGlobalVariable M ''llvm.global_dtors''"
    by (rule getGlobalVariable_cong)
  have fn: "getFunction M1 (InitOrFiniKernelName False) = getFunction M (InitOrFiniKernelName False)"
    by (rule kernel_frame(2) [OF run1]) (simp add: InitOrFiniKernelName_def)
  have "getGlobalVariable M1 ''llvm.global_dtors'' = None
       \<or> validArray M1 ''llvm.global_dtors'' \<and> getFunction M1 (InitOrFiniKernelName False) = None"
    using assms(3) by (simp add: gv fn validArray_cong [OF gv])
  from kind_step [OF assms(1) this] obtain r2 M2 where
    run2: "createInitOrFiniKernel Opts M1 ''llvm.global_dtors'' False = Inr (r2, M2)"
    and abs2: "getGlobalVariable M2 ''llvm.global_dtors'' = None"
    by blast
  have "getNamedGlobal M2 ''llvm.global_ctors'' = getNamedGlobal M1 ''llvm.global_ctors''"
    by (rule kernel_frame(1) [OF run2]) (simp_all add: arrayPrefix_def)
  then have abs1': "getGlobalVariable M2 ''llvm.global_ctors'' = None"
    using abs1 by (simp add: getGlobalVariable_def)
  have "lowerCtorsAndDtors Opts M = Inr (r1 \<or> r2, M2)"
    by (simp add: lowerCtorsAndDtors_def run1 run2)
  moreover have "lowerCtorsAndDtors Opts' M2 = Inr (False, M2)"
    by (simp add: lowerCtorsAndDtors_def createInitOrFiniKernel_def abs1' abs2)
  ultimately show ?thesis
    using abs1' abs2 by blast
qed

lemma fooBar_twice:
  "(case lowerCtorsAndDtors (exampleOptions True) fooBarModule of
      Inl e \<Rightarrow> False
    | Inr (Modified, M2) \<Rightarrow>
        Modified
        \<and> map gvName (globalList M2)
            = [''__init_array_object_foo_id_1'', ''__init_array_start'', ''__init_array_end'',
               ''__fini_array_object_bar_id_1'', ''__fini_array_start'', ''__fini_array_end'']
        \<and> map fnName (functionList M2) = [''foo'', ''bar'', ''nvptx$device$init'', ''nvptx$device$fini'']
        \<and> lowerCtorsAndDtors (exampleOptions True) M2 = Inr (False, M2))"
  by code_simp

theorem second_run_is_noop_witness:
  "CreateKernels (exampleOptions True)
   \<and> validArray fooBarModule ''llvm.global_ctors''
   \<and> getFunction fooBarModule (InitOrFiniKernelName True) = None
   \<and> validArray fooBarModule ''llvm.global_dtors''
   \<and> getFunction fooBarModule (InitOrFiniKernelName False) = None
   \<and> (\<exists>Modified M2. lowerCtorsAndDtors (exampleOptions True) fooBarModule = Inr (Modified, M2)
           \<and> getGlobalVariable M2 ''llvm.global_ctors'' = None
           \<and> getGlobalVariable M2 ''llvm.global_dtors'' = None
           \<and> lowerCtorsAndDtors (exampleOptions True) M2 = Inr (False, M2))"
proof -
  have h1: "CreateKernels (exampleOptions True)"
    by (simp add: exampleOptions_def)
  have c: "validArray fooBarModule ''llvm.global_ctors''"
    "getFunction fooBarModule (InitOrFiniKernelName True) = None"
    and d: "validArray fooBarModule ''llvm.global_dtors''"
    "getFunction fooBarModule (InitOrFiniKernelName False) = None"
    by code_simp+
  have h2: "getGlobalVariable fooBarModule ''llvm.global_ctors'' = None
       \<or> validArray fooBarModule ''llvm.global_ctors''
         \<and> getFunction fooBarModule (InitOrFiniKernelName True) = None"
    using c by simp
  have h3: "getGlobalVariable fooBarModule ''llvm.global_dtors'' = None
       \<or> validArray fooBarModule ''llvm.global_dtors''
         \<and> getFunction fooBarModule (InitOrFiniKernelName False) = None"
    using d by simp
  from h1 c d second_run_is_noop [OF h1 h2 h3, of "exampleOptions True"] show ?thesis
    by blast
qed

subsection \<open>Absent, malformed and empty metadata arrays\<close>

text \<open>
  Claim C5. When the metadata array of a kind is absent, has no initializer, has an
  initializer that is not a constant array, or is a constant array of zero elements,
  \<open>createInitOrFiniKernel\<close> returns the module it was given, unchanged in every
  component (so no entry-global and no entry-point function is created and the array
  variable, if any, stays), and reports \<open>False\<close>, that is unmodified.
\<close>

theorem absent_or_malformed_array_is_noop:
  assumes "getGlobalVariable M GlobalName = None
     \<or> (\<exists>GV. getGlobalVariable M GlobalName = Some GV
           \<and> (gvInitializer GV = None
               \<or> (\<forall>GA. gvInitializer GV \<noteq> Some (ConstantArray GA))
               \<or> gvInitializer GV = Some (ConstantArray [])))"
  shows "createInitOrFiniKernel Opts M GlobalName IsCtor = Inr (False, M)"
  using assms
  by (auto simp: createInitOrFiniKernel_def createInitOrFiniGlobals_def hasInitializer_def
      split: option.splits Constant.splits)

theorem absent_or_malformed_array_is_noop_witness:
  "(getGlobalVariable
       (exampleModule [arrayGlobal ''llvm.global_ctors'' (Some (ConstantArray []))] [])
       ''llvm.global_ctors'' = None
     \<or> (\<exists>GV. getGlobalVariable
           (exampleModule [arrayGlobal ''llvm.global_ctors'' (Some (ConstantArray []))] [])
           ''llvm.global_ctors'' = Some GV
           \<and> (gvInitializer GV = None
               \<or> (\<forall>GA. gvInitializer GV \<noteq> Some (ConstantArray GA))
               \<or> gvInitializer GV = Some (ConstantArray []))))
   \<and> createInitOrFiniKernel (exampleOptions True)
       (exampleModule [arrayGlobal ''llvm.global_ctors'' (Some (ConstantArray []))] [])
       ''llvm.global_ctors'' True
     = Inr (False, exampleModule [arrayGlobal ''llvm.global_ctors'' (Some (ConstantArray []))] [])"
proof -
  have h: "getGlobalVariable
       (exampleModule [arrayGlobal ''llvm.global_ctors'' (Some (ConstantArray []))] [])
       ''llvm.global_ctors'' = None
     \<or> (\<exists>GV. getGlobalVariable
           (exampleModule [arrayGlobal ''llvm.global_ctors'' (Some (ConstantArray []))] [])
           ''llvm.global_ctors'' = Some GV
           \<and> (gvInitializer GV = None
               \<or> (\<forall>GA. gvInitializer GV \<noteq> Some (ConstantArray GA))
               \<or> gvInitializer GV = Some (ConstantArray [])))"
    by (simp add: getGlobalVariable_def getNamedGlobal_def exampleModule_def arrayGlobal_def
        hasLocalLinkage_def)
  from h absent_or_malformed_array_is_noop [OF h] show ?thesis
    by blast
qed

end
